theory Spec2Isabelle
  imports Main "HOL-Library.Sublist" "HOL-Library.Multiset"
begin

section \<open>Values of the handlers\<close>

text \<open>
  The handlers are TypeScript functions that talk to the Microsoft Graph API through a
  client object. A value thrown by the client is an object whose properties
  \<^verbatim>\<open>statusCode\<close>, \<^verbatim>\<open>code\<close> and \<^verbatim>\<open>message\<close> the handlers inspect; any of them can be
  missing (a plain \<^verbatim>\<open>Error\<close> has no status code), so each is optional. \<^verbatim>\<open>name\<close> is
  what \<^verbatim>\<open>Error.prototype.toString\<close> prints in front of the message.
\<close>

record gerror =
  statusCode :: "int option"
  code :: "string option"
  message :: "string option"
  name :: string

text \<open>\<^verbatim>\<open>new Error(msg)\<close>\<close>

definition new_Error :: "string \<Rightarrow> gerror" where
  "new_Error msg = \<lparr>statusCode = None, code = None, message = Some msg, name = ''Error''\<rparr>"

text \<open>\<^verbatim>\<open>s.includes(t)\<close>: \<open>t\<close> occurs in \<open>s\<close> as a contiguous substring.\<close>

fun includes_str :: "string \<Rightarrow> string \<Rightarrow> bool" where
  "includes_str [] t = (t = [])"
| "includes_str (c # s) t = (prefix t (c # s) \<or> includes_str s t)"

text \<open>\<^verbatim>\<open>error.message?.includes(t)\<close> used as a condition: a missing message is falsy.\<close>

definition message_includes :: "gerror \<Rightarrow> string \<Rightarrow> bool" where
  "message_includes error t = (case message error of None \<Rightarrow> False | Some m \<Rightarrow> includes_str m t)"

text \<open>\<^verbatim>\<open>x || d\<close> on an optional string: the undefined and the empty string are falsy.\<close>

definition truthy :: "string option \<Rightarrow> bool" where
  "truthy x = (case x of None \<Rightarrow> False | Some s \<Rightarrow> s \<noteq> [])"

definition or_else :: "string option \<Rightarrow> string \<Rightarrow> string" where
  "or_else x d = (if truthy x then the x else d)"

text \<open>\<^verbatim>\<open>Error.prototype.toString\<close>\<close>

definition toString :: "gerror \<Rightarrow> string" where
  "toString error =
     (let msg = (case message error of None \<Rightarrow> [] | Some m \<Rightarrow> m) in
      if name error = [] then msg
      else if msg = [] then name error
      else name error @ '': '' @ msg)"

text \<open>JSON values of the response bodies and of the patched list fields.\<close>

datatype jval = JStr string | JBool bool | JNum int

text \<open>
  What a handler returns: \<^verbatim>\<open>{status, jsonBody}\<close> (the older handlers assign the same
  shape to \<^verbatim>\<open>context.res\<close> and call the second field \<^verbatim>\<open>body\<close>). The body is the
  object literal, key by key in source order.
\<close>

record http_response =
  status :: int
  jsonBody :: "(string \<times> jval) list"

text \<open>A directory user as the handlers read it; an absent \<^verbatim>\<open>id\<close> is the empty string.\<close>

record entra_user =
  id_u :: string
  userPrincipalName :: string
  mail :: "string option"
  displayName :: "string option"

text \<open>The response of \<^verbatim>\<open>POST /invitations\<close>, with the two properties that are read.\<close>

record invitation =
  invitedUser_id :: string
  invitedUserEmailAddress :: string

text \<open>
  The mail bodies are template literals; a body is kept as the template's name with the
  values interpolated into it. \<open>Sanitized\<close> carries the caller's own body after
  \<^verbatim>\<open>sanitizeHtml\<close>.
\<close>

datatype mail_content =
    PasswordResetTemplate "string option" string string
  | ConfirmationTemplate "string option"
  | ManagerTemplate "string option" string
  | Sanitized string

record mail_message =
  subject :: string
  contentType :: string
  content :: mail_content
  sender :: "(string \<times> string) option"
  toRecipients :: "(string \<times> string option) list"
  ccRecipients :: "string list"
  bccRecipients :: "string list"
  importance :: "string option"

section \<open>The remote API\<close>

text \<open>
  Every request that leaves the process is a \<open>call\<close>. The client acquires its bearer
  token inside each request (the \<^verbatim>\<open>authProvider\<close> callback), so a token failure is a
  failure of the call it belongs to.
\<close>

datatype call =
    UsersGet string
  | UsersGetSelect string
  | UsersFilter string bool
  | InvitationsPost string string string
  | GroupMembersFilter string string
  | GroupMembersRefPost string string
  | GroupMembersRefDelete string string
  | SitesGet string string
  | ListItemFieldsPatch string string string "(string \<times> jval) list"
  | UserPasswordPatch string string
  | SendMail string mail_message bool

text \<open>
  The remote service is a deterministic machine over a state \<open>'w\<close> of its own: each kind of
  request takes the service's state and gives either the thrown error or the response body,
  and the next state. Nothing is assumed about it. A \<^verbatim>\<open>select\<close> only narrows the
  properties of the answer; it is kept in the call (\<open>UsersGetSelect\<close>, the flag of
  \<open>UsersFilter\<close>) and answered like the plain request.
\<close>

record 'w graph =
  users_get :: "string \<Rightarrow> 'w \<Rightarrow> (gerror + entra_user) \<times> 'w"
  users_filter :: "string \<Rightarrow> 'w \<Rightarrow> (gerror + entra_user list option) \<times> 'w"
  invitations_post :: "string \<Rightarrow> string \<Rightarrow> string \<Rightarrow> 'w \<Rightarrow> (gerror + invitation) \<times> 'w"
  members_filter :: "string \<Rightarrow> string \<Rightarrow> 'w \<Rightarrow> (gerror + string list option) \<times> 'w"
  members_ref_post :: "string \<Rightarrow> string \<Rightarrow> 'w \<Rightarrow> (gerror + unit) \<times> 'w"
  members_ref_delete :: "string \<Rightarrow> string \<Rightarrow> 'w \<Rightarrow> (gerror + unit) \<times> 'w"
  sites_get :: "string \<Rightarrow> string \<Rightarrow> 'w \<Rightarrow> (gerror + string) \<times> 'w"
  fields_patch :: "string \<Rightarrow> string \<Rightarrow> string \<Rightarrow> (string \<times> jval) list \<Rightarrow> 'w \<Rightarrow> (gerror + unit) \<times> 'w"
  password_patch :: "string \<Rightarrow> string \<Rightarrow> 'w \<Rightarrow> (gerror + unit) \<times> 'w"
  sendMail_post :: "string \<Rightarrow> mail_message \<Rightarrow> bool \<Rightarrow> 'w \<Rightarrow> (gerror + unit) \<times> 'w"

text \<open>
  What an invocation leaves behind: the remote calls it issued and the lines it wrote with
  \<^verbatim>\<open>context.error\<close>, in order. The informational \<^verbatim>\<open>context.log\<close> lines are not kept.
\<close>

datatype event = Call call | ErrorLog string

text \<open>
  An \<^verbatim>\<open>async\<close> function: from the service's state and the events so far to a thrown
  error (\<open>Inl\<close>) or a value (\<open>Inr\<close>), the next state and the events.
\<close>

type_synonym ('w, 'a) io = "'w \<times> event list \<Rightarrow> (gerror + 'a) \<times> ('w \<times> event list)"

definition ret :: "'a \<Rightarrow> ('w, 'a) io" where
  "ret x s = (Inr x, s)"

definition throw :: "gerror \<Rightarrow> ('w, 'a) io" where
  "throw e s = (Inl e, s)"

definition bind :: "('w, 'a) io \<Rightarrow> ('a \<Rightarrow> ('w, 'b) io) \<Rightarrow> ('w, 'b) io" where
  "bind m f s = (case m s of (Inl e, s') \<Rightarrow> (Inl e, s') | (Inr x, s') \<Rightarrow> f x s')"

definition try_catch :: "('w, 'a) io \<Rightarrow> (gerror \<Rightarrow> ('w, 'a) io) \<Rightarrow> ('w, 'a) io" where
  "try_catch m h s = (case m s of (Inl e, s') \<Rightarrow> h e s' | (Inr x, s') \<Rightarrow> (Inr x, s'))"

definition context_error :: "string \<Rightarrow> ('w, unit) io" where
  "context_error line s = (Inr (), (fst s, snd s @ [ErrorLog line]))"

definition api :: "call \<Rightarrow> ('w \<Rightarrow> (gerror + 'a) \<times> 'w) \<Rightarrow> ('w, 'a) io" where
  "api c f s = (case f (fst s) of (r, w') \<Rightarrow> (r, (w', snd s @ [Call c])))"

text \<open>The calls among the events, and the sends among the calls.\<close>

fun calls_of :: "event list \<Rightarrow> call list" where
  "calls_of [] = []"
| "calls_of (Call c # es) = c # calls_of es"
| "calls_of (ErrorLog l # es) = calls_of es"

fun is_SendMail :: "call \<Rightarrow> bool" where
  "is_SendMail (SendMail a m b) = True"
| "is_SendMail c = False"

fun is_InvitationsPost :: "call \<Rightarrow> bool" where
  "is_InvitationsPost (InvitationsPost a b c) = True"
| "is_InvitationsPost c = False"

section \<open>License management (manageLicense.ts)\<close>

definition OFFICE365_E1_GROUP_ID :: string where
  "OFFICE365_E1_GROUP_ID = ''1263971a-19e5-42d1-a25e-36d71ec76014''"

definition addUserToGroup :: "'w graph \<Rightarrow> string \<Rightarrow> ('w, unit) io" where
  "addUserToGroup graphClient userId =
     try_catch
       (api (GroupMembersRefPost OFFICE365_E1_GROUP_ID userId)
            (members_ref_post graphClient OFFICE365_E1_GROUP_ID userId))
       (\<lambda>error.
          if statusCode error = Some 400 \<and>
             (message_includes error ''already exist'' \<or>
              message_includes error ''already a member'' \<or>
              code error = Some ''Request_BadRequest'')
          then ret ()
          else bind (context_error ''Error adding user to group:'') (\<lambda>_. throw error))"

definition removeUserFromGroup :: "'w graph \<Rightarrow> string \<Rightarrow> ('w, unit) io" where
  "removeUserFromGroup graphClient userId =
     try_catch
       (api (GroupMembersRefDelete OFFICE365_E1_GROUP_ID userId)
            (members_ref_delete graphClient OFFICE365_E1_GROUP_ID userId))
       (\<lambda>error.
          if statusCode error = Some 404 then ret ()
          else bind (context_error ''Error removing user from group:'') (\<lambda>_. throw error))"

text \<open>
  \<^verbatim>\<open>findOrCreateUser\<close>: by object id, then by principal name, then the filtered search,
  then the guest invitation. A lookup that throws (for whatever reason) is logged with
  \<^verbatim>\<open>context.log\<close> and the next strategy is tried.
\<close>

definition findOrCreateUser ::
  "'w graph \<Rightarrow> string option \<Rightarrow> string option \<Rightarrow> string \<Rightarrow> string \<Rightarrow> string \<Rightarrow> ('w, entra_user) io" where
  "findOrCreateUser graphClient entraObjectId entraUPN email firstName lastName =
     try_catch
       (bind
          (if truthy entraObjectId
           then try_catch
                  (bind (api (UsersGet (the entraObjectId)) (users_get graphClient (the entraObjectId)))
                        (\<lambda>user. ret (Some user)))
                  (\<lambda>error. ret None)
           else ret None)
          (\<lambda>byId. case byId of
             Some user \<Rightarrow> ret user
           | None \<Rightarrow>
               bind
                 (if truthy entraUPN
                  then try_catch
                         (bind (api (UsersGet (the entraUPN)) (users_get graphClient (the entraUPN)))
                               (\<lambda>user. ret (Some user)))
                         (\<lambda>error. ret None)
                  else ret None)
                 (\<lambda>byUPN. case byUPN of
                    Some user \<Rightarrow> ret user
                  | None \<Rightarrow>
                      bind (api (UsersFilter email False) (users_filter graphClient email))
                        (\<lambda>users. case users of
                           Some (first # others) \<Rightarrow> ret first
                         | _ \<Rightarrow>
                             bind
                               (api (InvitationsPost email (firstName @ '' '' @ lastName)
                                       ''https://portal.azure.com'')
                                    (invitations_post graphClient email (firstName @ '' '' @ lastName)
                                       ''https://portal.azure.com''))
                               (\<lambda>invitation. ret
                                  \<lparr>id_u = invitedUser_id invitation,
                                   userPrincipalName = invitedUserEmailAddress invitation,
                                   mail = Some email,
                                   displayName = Some (firstName @ '' '' @ lastName)\<rparr>)))))
       (\<lambda>error. bind (context_error ''Error finding/creating user:'') (\<lambda>_. throw error))"

subsection \<open>The earlier variant (manageLicense/index.ts, kept beside sendEmail/index.ts)\<close>

definition findOrCreateUser_v1 :: "'w graph \<Rightarrow> string \<Rightarrow> string \<Rightarrow> string \<Rightarrow> ('w, entra_user) io" where
  "findOrCreateUser_v1 graphClient email firstName lastName =
     try_catch
       (bind (api (UsersFilter email True) (users_filter graphClient email))
          (\<lambda>users. case users of
             Some (first # others) \<Rightarrow> ret first
           | _ \<Rightarrow>
               bind
                 (api (InvitationsPost email (firstName @ '' '' @ lastName)
                         ''https://myapps.microsoft.com'')
                      (invitations_post graphClient email (firstName @ '' '' @ lastName)
                         ''https://myapps.microsoft.com''))
                 (\<lambda>invitation. ret
                    \<lparr>id_u = invitedUser_id invitation,
                     userPrincipalName = invitedUserEmailAddress invitation,
                     mail = Some email,
                     displayName = Some (firstName @ '' '' @ lastName)\<rparr>)))
       (\<lambda>error. bind (context_error ''Error finding/creating user:'') (\<lambda>_. throw error))"

definition addUserToGroup_v1 :: "'w graph \<Rightarrow> string \<Rightarrow> ('w, unit) io" where
  "addUserToGroup_v1 graphClient userId =
     try_catch
       (bind (api (GroupMembersFilter OFFICE365_E1_GROUP_ID userId)
                  (members_filter graphClient OFFICE365_E1_GROUP_ID userId))
          (\<lambda>members. case members of
             Some (first # others) \<Rightarrow> ret ()
           | _ \<Rightarrow> api (GroupMembersRefPost OFFICE365_E1_GROUP_ID userId)
                      (members_ref_post graphClient OFFICE365_E1_GROUP_ID userId)))
       (\<lambda>error.
          if statusCode error = Some 400 \<and> message_includes error ''already exist''
          then ret ()
          else bind (context_error ''Error adding user to group:'') (\<lambda>_. throw error))"

definition removeUserFromGroup_v1 :: "'w graph \<Rightarrow> string \<Rightarrow> ('w, unit) io" where
  "removeUserFromGroup_v1 graphClient userId =
     try_catch
       (bind (api (GroupMembersFilter OFFICE365_E1_GROUP_ID userId)
                  (members_filter graphClient OFFICE365_E1_GROUP_ID userId))
          (\<lambda>members. case members of
             Some (first # others) \<Rightarrow>
               api (GroupMembersRefDelete OFFICE365_E1_GROUP_ID userId)
                   (members_ref_delete graphClient OFFICE365_E1_GROUP_ID userId)
           | _ \<Rightarrow> ret ()))
       (\<lambda>error.
          if statusCode error = Some 404 then ret ()
          else bind (context_error ''Error removing user from group:'') (\<lambda>_. throw error))"

section \<open>Activity responses (handleActivityResponse.ts): the helpers\<close>

definition SHAREPOINT_LIST_ID :: string where
  "SHAREPOINT_LIST_ID = ''ebfc366f-f3ca-4230-8f81-25d4e23d5f0b''"

definition SERVICE_ACCOUNT_EMAIL :: string where
  "SERVICE_ACCOUNT_EMAIL = ''noreply@egg-events.com''"

text \<open>
  \<^verbatim>\<open>getSharePointSiteId\<close>: host name and path are those of the constant
  \<^verbatim>\<open>SHAREPOINT_SITE_URL\<close>.
\<close>

definition getSharePointSiteId :: "'w graph \<Rightarrow> ('w, string) io" where
  "getSharePointSiteId graphClient =
     try_catch
       (api (SitesGet ''egginthenest.sharepoint.com'' ''/sites/INTRANET'')
            (sites_get graphClient ''egginthenest.sharepoint.com'' ''/sites/INTRANET''))
       (\<lambda>error. bind (context_error ''Error getting SharePoint site ID:'') (\<lambda>_. throw error))"

definition updateSharePointItem ::
  "'w graph \<Rightarrow> string \<Rightarrow> string \<Rightarrow> (string \<times> jval) list \<Rightarrow> ('w, unit) io" where
  "updateSharePointItem graphClient siteId itemId fields' =
     try_catch
       (api (ListItemFieldsPatch siteId SHAREPOINT_LIST_ID itemId fields')
            (fields_patch graphClient siteId SHAREPOINT_LIST_ID itemId fields'))
       (\<lambda>error. bind (context_error ''Error updating SharePoint item:'') (\<lambda>_. throw error))"

definition removeUserFromGroup_activity :: "'w graph \<Rightarrow> string \<Rightarrow> ('w, unit) io" where
  "removeUserFromGroup_activity graphClient userId =
     try_catch
       (api (GroupMembersRefDelete OFFICE365_E1_GROUP_ID userId)
            (members_ref_delete graphClient OFFICE365_E1_GROUP_ID userId))
       (\<lambda>error.
          if statusCode error = Some 404 then ret ()
          else bind (context_error ''Error removing user from group:'') (\<lambda>_. throw error))"

text \<open>A value interpolated into a template literal; the undefined prints as its name.\<close>

definition interpolate :: "string option \<Rightarrow> string" where
  "interpolate x = (case x of None \<Rightarrow> ''undefined'' | Some s \<Rightarrow> s)"

definition sendConfirmationEmail :: "'w graph \<Rightarrow> string \<Rightarrow> string option \<Rightarrow> ('w, unit) io" where
  "sendConfirmationEmail graphClient recipientEmail firstName =
     try_catch
       (let message =
              \<lparr>subject = ''Thank you - Activity Confirmed'',
               contentType = ''HTML'',
               content = ConfirmationTemplate firstName,
               sender = None,
               toRecipients = [(recipientEmail, None)],
               ccRecipients = [],
               bccRecipients = [],
               importance = None\<rparr>
        in api (SendMail SERVICE_ACCOUNT_EMAIL message False)
               (sendMail_post graphClient SERVICE_ACCOUNT_EMAIL message False))
       (\<lambda>error. context_error ''Error sending confirmation email:'')"

definition sendManagerNotification ::
  "'w graph \<Rightarrow> string \<Rightarrow> string option \<Rightarrow> string \<Rightarrow> ('w, unit) io" where
  "sendManagerNotification graphClient managerEmail supplierName supplierEmail =
     try_catch
       (let message =
              \<lparr>subject = ''Freelancer Account Deactivated - '' @ interpolate supplierName,
               contentType = ''HTML'',
               content = ManagerTemplate supplierName supplierEmail,
               sender = None,
               toRecipients = [(managerEmail, None)],
               ccRecipients = [''OnBoard-Talent@egg-events.com''],
               bccRecipients = [''dl_freelanceonboarding@egg-events.com''],
               importance = Some ''High''\<rparr>
        in api (SendMail SERVICE_ACCOUNT_EMAIL message False)
               (sendMail_post graphClient SERVICE_ACCOUNT_EMAIL message False))
       (\<lambda>error. context_error ''Error sending manager notification:'')"

text \<open>\<^verbatim>\<open>toLowerCase\<close> on the ASCII letters.\<close>

definition toLowerCase_char :: "char \<Rightarrow> char" where
  "toLowerCase_char c =
     (case map_of (zip ''ABCDEFGHIJKLMNOPQRSTUVWXYZ'' ''abcdefghijklmnopqrstuvwxyz'') c of
        None \<Rightarrow> c | Some l \<Rightarrow> l)"

definition toLowerCase :: "string \<Rightarrow> string" where
  "toLowerCase s = map toLowerCase_char s"

section \<open>Password reset (resetFreelancerPassword.ts): the password\<close>

text \<open>
  \<^verbatim>\<open>crypto.randomInt(max)\<close> gives an integer from 0 up to, not including, \<open>max'\<close>. The
  generator is a sequence \<open>rnd\<close> of arbitrary numbers; the \<open>k\<close>-th draw of an invocation
  reduces the \<open>k\<close>-th of them into the range, so every sequence of draws that can occur is
  the image of some \<open>rnd\<close>.
\<close>

definition randomInt :: "(nat \<Rightarrow> nat) \<Rightarrow> nat \<Rightarrow> nat \<Rightarrow> nat" where
  "randomInt rnd k max' = rnd k mod max'"

text \<open>
  The \<^verbatim>\<open>for\<close> loop that fills the password up to \<open>len\<close> characters; \<open>k\<close> counts the draws.
\<close>

function fill_password ::
  "(nat \<Rightarrow> nat) \<Rightarrow> string \<Rightarrow> nat \<Rightarrow> nat \<Rightarrow> nat \<Rightarrow> string \<Rightarrow> string \<times> nat" where
  "fill_password rnd chars len k i password =
     (if i < len
      then fill_password rnd chars len (Suc k) (Suc i)
             (password @ [chars ! randomInt rnd k (length chars)])
      else (password, k))"
  by pat_completeness auto
termination
  by (relation "measure (\<lambda>(rnd, chars, len, k, i, password). len - i)") auto

declare fill_password.simps [simp del]

text \<open>
  The four character classes and their union are local constants of
  \<^verbatim>\<open>generateSecurePassword\<close>. Its last line sorts the characters with a comparator
  that ignores its arguments and answers \<^verbatim>\<open>crypto.randomInt(3) - 1\<close>. The sort is the engine's
  \<^verbatim>\<open>Array.prototype.sort\<close>, taken as the parameter \<open>array_sort\<close>: it gets the answers
  of the comparator, call by call, and the array.
\<close>

definition uppercase :: string where
  "uppercase = ''ABCDEFGHIJKLMNOPQRSTUVWXYZ''"

definition lowercase :: string where
  "lowercase = ''abcdefghijklmnopqrstuvwxyz''"

definition numbers :: string where
  "numbers = ''0123456789''"

definition symbols :: string where
  "symbols = ''!@#$%^&*''"

definition allChars :: string where
  "allChars = uppercase @ lowercase @ numbers @ symbols"

definition generateSecurePassword :: "((nat \<Rightarrow> int) \<Rightarrow> string \<Rightarrow> string) \<Rightarrow> (nat \<Rightarrow> nat) \<Rightarrow> string" where
  "generateSecurePassword array_sort rnd =
     (let len = 16;
          password = [] @ [uppercase ! randomInt rnd 0 (length uppercase)]
                        @ [lowercase ! randomInt rnd 1 (length lowercase)]
                        @ [numbers ! randomInt rnd 2 (length numbers)]
                        @ [symbols ! randomInt rnd 3 (length symbols)];
          (password, k) = fill_password rnd allChars len 4 (length password) password
      in array_sort (\<lambda>n. int (randomInt rnd (k + n) 3) - 1) password)"

text \<open>
  One sort that an engine may run: insertion from the right, asking the comparator at
  each step. It serves as an instance of \<open>array_sort\<close>.
\<close>

fun insert_by :: "(nat \<Rightarrow> int) \<Rightarrow> nat \<Rightarrow> 'a \<Rightarrow> 'a list \<Rightarrow> 'a list \<times> nat" where
  "insert_by cmp n x [] = ([x], n)"
| "insert_by cmp n x (y # ys) =
     (if cmp n \<le> 0 then (x # y # ys, Suc n)
      else (case insert_by cmp (Suc n) x ys of (zs, n') \<Rightarrow> (y # zs, n')))"

fun insertion_sort_by :: "(nat \<Rightarrow> int) \<Rightarrow> nat \<Rightarrow> 'a list \<Rightarrow> 'a list \<times> nat" where
  "insertion_sort_by cmp n [] = ([], n)"
| "insertion_sort_by cmp n (x # xs) =
     (case insertion_sort_by cmp n xs of (ys, n') \<Rightarrow> insert_by cmp n' x ys)"

definition insertion_sort :: "(nat \<Rightarrow> int) \<Rightarrow> 'a list \<Rightarrow> 'a list" where
  "insertion_sort cmp xs = fst (insertion_sort_by cmp 0 xs)"

section \<open>Sending mail (sendEmail/index.ts): the sanitizer\<close>

text \<open>
  \<^verbatim>\<open>sanitizeHtml\<close> is five global, case-insensitive regular-expression replacements.
  The expressions are kept as syntax trees and matched by backtracking in the order of
  the ECMAScript matcher: alternatives of a sequence left to right, a star greedily.
\<close>

datatype cclass = CChar char | CWord | CSpace

datatype re =
    Eps
  | Lit char
  | Cls bool "cclass list"
  | Seq re re
  | Star re
  | NotAhead re
  | WordBoundary
  | Group re

definition is_word :: "char \<Rightarrow> bool" where
  "is_word c = (c \<in> set ''ABCDEFGHIJKLMNOPQRSTUVWXYZabcdefghijklmnopqrstuvwxyz0123456789_'')"

text \<open>
  A \<open>char\<close> is a code unit below 256. \<^verbatim>\<open>\s\<close> matches seven of them: space, tab, line
  feed, vertical tab, form feed, carriage return and the no-break space U+00A0. The other
  white-space characters of Unicode lie beyond what a \<open>char\<close> holds.
\<close>

definition is_space :: "char \<Rightarrow> bool" where
  "is_space c = (c \<in> set [CHR '' '', CHR 0x09, CHR 0x0A, CHR 0x0B, CHR 0x0C, CHR 0x0D, CHR 0xA0])"

fun in_class :: "char \<Rightarrow> cclass \<Rightarrow> bool" where
  "in_class c (CChar d) = (toLowerCase_char c = toLowerCase_char d)"
| "in_class c CWord = is_word c"
| "in_class c CSpace = is_space c"

text \<open>
  A position of the matcher: the text before it (last character first), the text after
  it, and what group 1 has captured.
\<close>

type_synonym mstate = "string \<times> string \<times> string option"

text \<open>
  Up to \<open>n\<close> more rounds of a starred expression, longest first; a round that consumes
  nothing is dropped, as the matcher does.
\<close>

fun star_iter :: "(mstate \<Rightarrow> mstate list) \<Rightarrow> nat \<Rightarrow> mstate \<Rightarrow> mstate list" where
  "star_iter f 0 st = [st]"
| "star_iter f (Suc n) st =
     concat (map (star_iter f n)
               (filter (\<lambda>st'. length (fst (snd st')) < length (fst (snd st))) (f st))) @ [st]"

text \<open>All ways to match at a position, in the matcher's order of preference.\<close>

primrec matches :: "re \<Rightarrow> mstate \<Rightarrow> mstate list" where
  "matches Eps st = [st]"
| "matches (Lit c) st =
     (case st of (seen, rest, cap) \<Rightarrow>
        (case rest of
           [] \<Rightarrow> []
         | x # xs \<Rightarrow> if toLowerCase_char x = toLowerCase_char c then [(x # seen, xs, cap)] else []))"
| "matches (Cls negated items) st =
     (case st of (seen, rest, cap) \<Rightarrow>
        (case rest of
           [] \<Rightarrow> []
         | x # xs \<Rightarrow> if list_ex (in_class x) items \<noteq> negated then [(x # seen, xs, cap)] else []))"
| "matches (Seq r1 r2) st = concat (map (matches r2) (matches r1 st))"
| "matches (Star r) st = star_iter (matches r) (length (fst (snd st))) st"
| "matches (NotAhead r) st = (if matches r st = [] then [st] else [])"
| "matches WordBoundary st =
     (case st of (seen, rest, cap) \<Rightarrow>
        if (case seen of [] \<Rightarrow> False | p # ps \<Rightarrow> is_word p) \<noteq>
           (case rest of [] \<Rightarrow> False | x # xs \<Rightarrow> is_word x)
        then [st] else [])"
| "matches (Group r) st =
     map (\<lambda>st'. (fst st', fst (snd st'),
                  Some (take (length (fst (snd st)) - length (fst (snd st'))) (fst (snd st)))))
         (matches r st)"

text \<open>
  \<^verbatim>\<open>String.prototype.replace\<close> with a global expression: the leftmost match, the
  matcher's first choice there, is replaced and the scan goes on behind it; after an
  empty match it moves one character on.
\<close>

fun replace_g :: "re \<Rightarrow> (string option \<Rightarrow> string) \<Rightarrow> string \<Rightarrow> string \<Rightarrow> string" where
  "replace_g r repl seen rest =
     (case matches r (seen, rest, None) of
        [] \<Rightarrow> (case rest of [] \<Rightarrow> [] | c # cs \<Rightarrow> c # replace_g r repl (c # seen) cs)
      | m # ms \<Rightarrow>
          if length (fst (snd m)) < length rest
          then repl (snd (snd m)) @ replace_g r repl (fst m) (fst (snd m))
          else repl (snd (snd m)) @
               (case rest of [] \<Rightarrow> [] | c # cs \<Rightarrow> c # replace_g r repl (c # seen) cs))"

definition seq :: "re list \<Rightarrow> re" where
  "seq rs = foldr Seq rs Eps"

definition lits :: "string \<Rightarrow> re" where
  "lits s = seq (map Lit s)"

definition plus :: "re \<Rightarrow> re" where
  "plus r = Seq r (Star r)"

text \<open>\<^verbatim>\<open>/<script\b[^<]*(?:(?!<\/script>)<[^<]*)*<\/script>/gi\<close>\<close>

definition script_re :: re where
  "script_re =
     seq [lits ''<script'', WordBoundary, Star (Cls True [CChar CHR ''<'']),
          Star (seq [NotAhead (lits ''</script>''), Lit CHR ''<'', Star (Cls True [CChar CHR ''<''])]),
          lits ''</script>'']"

text \<open>\<^verbatim>\<open>/on\w+\s*=\s*["'][^"']*["']/gi\<close> (\<open>0x22\<close> and \<open>0x27\<close> are the two quotes)\<close>

definition handler_quoted_re :: re where
  "handler_quoted_re =
     seq [lits ''on'', plus (Cls False [CWord]), Star (Cls False [CSpace]), Lit CHR ''='',
          Star (Cls False [CSpace]), Cls False [CChar CHR 0x22, CChar CHR 0x27],
          Star (Cls True [CChar CHR 0x22, CChar CHR 0x27]),
          Cls False [CChar CHR 0x22, CChar CHR 0x27]]"

text \<open>\<^verbatim>\<open>/on\w+\s*=\s*[^\s>]*/gi\<close>\<close>

definition handler_bare_re :: re where
  "handler_bare_re =
     seq [lits ''on'', plus (Cls False [CWord]), Star (Cls False [CSpace]), Lit CHR ''='',
          Star (Cls False [CSpace]), Star (Cls True [CSpace, CChar CHR ''>''])]"

text \<open>\<^verbatim>\<open>/javascript:/gi\<close>\<close>

definition javascript_re :: re where
  "javascript_re = lits ''javascript:''"

text \<open>\<^verbatim>\<open>/(<(?!img)[^>]*)\sdata:[^>]*>/gi\<close>, replaced by \<^verbatim>\<open>$1>\<close>\<close>

definition data_re :: re where
  "data_re =
     seq [Group (seq [Lit CHR ''<'', NotAhead (lits ''img''), Star (Cls True [CChar CHR ''>''])]),
          Cls False [CSpace], lits ''data:'', Star (Cls True [CChar CHR ''>'']), Lit CHR ''>'']"

definition sanitizeHtml :: "string \<Rightarrow> string" where
  "sanitizeHtml html =
     (if html = [] then []
      else replace_g data_re (\<lambda>g1. (case g1 of None \<Rightarrow> [] | Some t \<Rightarrow> t) @ ''>'') []
          (replace_g javascript_re (\<lambda>_. []) []
          (replace_g handler_bare_re (\<lambda>_. []) []
          (replace_g handler_quoted_re (\<lambda>_. []) []
          (replace_g script_re (\<lambda>_. []) [] html)))))"

text \<open>A number printed into a template literal.\<close>

function string_of_nat :: "nat \<Rightarrow> string" where
  "string_of_nat n =
     (if n < 10 then [''0123456789'' ! n]
      else string_of_nat (n div 10) @ [''0123456789'' ! (n mod 10)])"
  by pat_completeness auto
termination
  by (relation "measure (\<lambda>n. n)") auto

section \<open>The license handlers\<close>

text \<open>
  The request body as \<^verbatim>\<open>LicenseRequest\<close> declares it; a string property that the JSON
  object lacks (or carries as \<^verbatim>\<open>null\<close>) is \<open>None\<close>. \<^verbatim>\<open>isActive\<close> is tested with
  \<^verbatim>\<open>=== undefined\<close>, which tells the absent property from \<^verbatim>\<open>null\<close>, so its three
  kinds of value are kept apart; only \<^verbatim>\<open>true\<close> is truthy.
\<close>

datatype js_boolean = Undefined | Null | Boolean bool

record LicenseRequest =
  userEmail :: "string option"
  entraUPN :: "string option"
  entraObjectId :: "string option"
  firstName :: "string option"
  lastName :: "string option"
  isActive :: js_boolean

text \<open>
  \<^verbatim>\<open>await request.json()\<close> either throws or gives the parsed object; a request is kept as
  that outcome. A body that parses to \<^verbatim>\<open>null\<close> makes the first property read of the
  handler throw, inside the same \<^verbatim>\<open>try\<close>: it is an \<open>Inl\<close> as well.
\<close>

definition request_json :: "gerror + 'r \<Rightarrow> ('w, 'r) io" where
  "request_json request = (case request of Inl e \<Rightarrow> throw e | Inr r \<Rightarrow> ret r)"

text \<open>The body of the \<^verbatim>\<open>catch\<close> block of \<^verbatim>\<open>manageLicense\<close>, after its log line.\<close>

definition manageLicense_catch :: "string \<Rightarrow> gerror \<Rightarrow> http_response" where
  "manageLicense_catch now error =
     (let errorMessage = or_else (message error) ''Unknown error occurred'';
          (statusCode', userMessage) =
            (if statusCode error = Some 401
               then (401, ''Authentication failed. Please check app permissions.'')
             else if statusCode error = Some 403
               then (403, ''Insufficient permissions to manage licenses.'')
             else if statusCode error = Some 404
               then (404, ''User or group not found.'')
             else if statusCode error = Some 429
               then (429, ''Rate limit exceeded. Please try again later.'')
             else (500, ''Failed to manage license''))
      in \<lparr>status = statusCode',
          jsonBody = [(''success'', JBool False), (''error'', JStr userMessage),
                      (''details'', JStr errorMessage), (''timestamp'', JStr now)]\<rparr>)"

text \<open>\<open>now\<close> is what \<^verbatim>\<open>new Date().toISOString()\<close> gives when the response is built.\<close>

definition manageLicense ::
  "'w graph \<Rightarrow> string \<Rightarrow> gerror + LicenseRequest \<Rightarrow> ('w, http_response) io" where
  "manageLicense graphClient now request =
     try_catch
       (bind (request_json request) (\<lambda>licenseRequest.
          if \<not> truthy (userEmail licenseRequest) \<or>
             \<not> truthy (LicenseRequest.firstName licenseRequest) \<or>
             \<not> truthy (LicenseRequest.lastName licenseRequest) \<or>
             isActive licenseRequest = Undefined
          then ret \<lparr>status = 400,
                    jsonBody = [(''success'', JBool False),
                                (''error'', JStr ''Missing required fields: userEmail, firstName, lastName, isActive'')]\<rparr>
          else
            bind (findOrCreateUser graphClient
                    (entraObjectId licenseRequest) (entraUPN licenseRequest)
                    (the (userEmail licenseRequest))
                    (the (LicenseRequest.firstName licenseRequest))
                    (the (LicenseRequest.lastName licenseRequest)))
              (\<lambda>user.
                 if id_u user = [] then throw (new_Error ''Failed to find or create user in Entra ID'')
                 else
                   bind (if isActive licenseRequest = Boolean True
                         then addUserToGroup graphClient (id_u user)
                         else removeUserFromGroup graphClient (id_u user))
                     (\<lambda>_. ret
                        \<lparr>status = 200,
                         jsonBody =
                           [(''success'', JBool True),
                            (''action'', JStr (if isActive licenseRequest = Boolean True then ''added'' else ''removed'')),
                            (''message'', JStr (if isActive licenseRequest = Boolean True
                                                  then ''User added to Office 365 E1 group''
                                                  else ''User removed from Office 365 E1 group'')),
                            (''userPrincipalName'', JStr (entra_user.userPrincipalName user)),
                            (''userId'', JStr (id_u user)),
                            (''timestamp'', JStr now)]\<rparr>))))
       (\<lambda>error. bind (context_error ''Error managing license:'')
                     (\<lambda>_. ret (manageLicense_catch now error)))"

definition manageLicense_v1_catch :: "string \<Rightarrow> gerror \<Rightarrow> http_response" where
  "manageLicense_v1_catch now error =
     (let errorMessage = or_else (message error) ''Unknown error occurred'';
          (statusCode', userMessage) =
            (if statusCode error = Some 401
               then (401, ''Authentication failed. Please check app permissions.'')
             else if statusCode error = Some 403
               then (403, ''Insufficient permissions to manage licenses.'')
             else if statusCode error = Some 404
               then (404, ''User or group not found.'')
             else (500, ''Failed to manage license''))
      in \<lparr>status = statusCode',
          jsonBody = [(''success'', JBool False), (''error'', JStr userMessage),
                      (''details'', JStr errorMessage), (''timestamp'', JStr now)]\<rparr>)"

text \<open>Here the runtime has parsed the body already; \<^verbatim>\<open>req.body\<close> is \<open>None\<close> when there is none.\<close>

definition manageLicense_v1 ::
  "'w graph \<Rightarrow> string \<Rightarrow> LicenseRequest option \<Rightarrow> ('w, http_response) io" where
  "manageLicense_v1 graphClient now req_body =
     try_catch
       (case req_body of
          None \<Rightarrow> ret \<lparr>status = 400,
                       jsonBody = [(''success'', JBool False), (''error'', JStr ''Request body is required'')]\<rparr>
        | Some licenseRequest \<Rightarrow>
          if \<not> truthy (userEmail licenseRequest) \<or>
             \<not> truthy (LicenseRequest.firstName licenseRequest) \<or>
             \<not> truthy (LicenseRequest.lastName licenseRequest) \<or>
             isActive licenseRequest = Undefined
          then ret \<lparr>status = 400,
                    jsonBody = [(''success'', JBool False),
                                (''error'', JStr ''Missing required fields: userEmail, firstName, lastName, isActive'')]\<rparr>
          else
            bind (findOrCreateUser_v1 graphClient
                    (the (userEmail licenseRequest))
                    (the (LicenseRequest.firstName licenseRequest))
                    (the (LicenseRequest.lastName licenseRequest)))
              (\<lambda>user.
                 if id_u user = [] then throw (new_Error ''Failed to find or create user in Entra ID'')
                 else
                   bind (if isActive licenseRequest = Boolean True
                         then addUserToGroup_v1 graphClient (id_u user)
                         else removeUserFromGroup_v1 graphClient (id_u user))
                     (\<lambda>_. ret
                        \<lparr>status = 200,
                         jsonBody =
                           [(''success'', JBool True),
                            (''action'', JStr (if isActive licenseRequest = Boolean True then ''added'' else ''removed'')),
                            (''userEmail'', JStr (entra_user.userPrincipalName user)),
                            (''userId'', JStr (id_u user)),
                            (''groupId'', JStr OFFICE365_E1_GROUP_ID),
                            (''timestamp'', JStr now)]\<rparr>)))
       (\<lambda>error. bind (context_error ''Error managing license:'')
                     (\<lambda>_. ret (manageLicense_v1_catch now error)))"

section \<open>The activity-response handler\<close>

record ActivityResponseRequest =
  response :: "string option"
  supplierEmail :: "string option"
  supplierName :: "string option"
  firstName :: "string option"
  entraObjectId :: "string option"
  sharePointItemId :: "string option"
  requestedByEmail :: "string option"

text \<open>
  \<^verbatim>\<open>timestamp\<close> is read from the clock once, before the site lookup; \<open>now\<close> is that
  reading.
\<close>

definition handleActivityResponse ::
  "'w graph \<Rightarrow> string \<Rightarrow> gerror + ActivityResponseRequest \<Rightarrow> ('w, http_response) io" where
  "handleActivityResponse graphClient now request =
     try_catch
       (bind (request_json request) (\<lambda>activityRequest.
          if \<not> truthy (ActivityResponseRequest.response activityRequest) \<or>
             \<not> truthy (supplierEmail activityRequest) \<or>
             \<not> truthy (ActivityResponseRequest.entraObjectId activityRequest) \<or>
             \<not> truthy (sharePointItemId activityRequest)
          then ret \<lparr>status = 400,
                    jsonBody = [(''success'', JBool False),
                                (''error'', JStr ''Missing required fields: response, supplierEmail, entraObjectId, sharePointItemId'')]\<rparr>
          else
            (let response = toLowerCase (the (ActivityResponseRequest.response activityRequest));
                 timestamp = now
             in bind (getSharePointSiteId graphClient) (\<lambda>siteId.
                  if response = ''yes'' then
                    bind (updateSharePointItem graphClient siteId
                            (the (sharePointItemId activityRequest))
                            [(''supplierdb_LastActivityCheck'', JStr timestamp),
                             (''supplierdb_ActivityReminderCount'', JNum 0),
                             (''supplierdb_ActivityCheckStatus'', JStr ''Active'')])
                      (\<lambda>_. bind (sendConfirmationEmail graphClient
                                    (the (supplierEmail activityRequest))
                                    (ActivityResponseRequest.firstName activityRequest))
                        (\<lambda>_. ret
                           \<lparr>status = 200,
                            jsonBody = [(''success'', JBool True),
                                        (''action'', JStr ''activity_confirmed''),
                                        (''message'', JStr ''Activity confirmed and SharePoint updated''),
                                        (''timestamp'', JStr timestamp)]\<rparr>))
                  else if response = ''no'' then
                    bind (removeUserFromGroup_activity graphClient
                            (the (ActivityResponseRequest.entraObjectId activityRequest)))
                      (\<lambda>_. bind (updateSharePointItem graphClient siteId
                                    (the (sharePointItemId activityRequest))
                                    [(''supplierdb_SendToEntra'', JBool False),
                                     (''supplierdb_ActivityCheckStatus'', JStr ''License Removed - User Declined''),
                                     (''supplierdb_LicenseRemovedDate'', JStr timestamp)])
                        (\<lambda>_. bind (if truthy (requestedByEmail activityRequest)
                                    then sendManagerNotification graphClient
                                           (the (requestedByEmail activityRequest))
                                           (supplierName activityRequest)
                                           (the (supplierEmail activityRequest))
                                    else ret ())
                          (\<lambda>_. ret
                             \<lparr>status = 200,
                              jsonBody = [(''success'', JBool True),
                                          (''action'', JStr ''license_removed''),
                                          (''message'', JStr ''License removed and manager notified''),
                                          (''timestamp'', JStr timestamp)]\<rparr>)))
                  else ret
                    \<lparr>status = 400,
                     jsonBody = [(''success'', JBool False),
                                 (''error'', JStr (''Invalid response value: '' @
                                     the (ActivityResponseRequest.response activityRequest) @
                                     ''. Expected 'yes' or 'no'.''))]\<rparr>))))
       (\<lambda>error. bind (context_error ''Error processing activity response:'')
          (\<lambda>_. ret
             \<lparr>status = 500,
              jsonBody = [(''success'', JBool False),
                          (''error'', JStr (or_else (message error) ''Internal server error'')),
                          (''details'', JStr (toString error))]\<rparr>))"

section \<open>The password-reset handler\<close>

record ResetPasswordRequest =
  userPrincipalName :: "string option"
  userId :: "string option"
  firstName :: "string option"
  lastName :: "string option"
  personalEmail :: "string option"

text \<open>
  \<^verbatim>\<open>sendPasswordResetEmail\<close> has no \<^verbatim>\<open>try\<close>: what the send throws, it throws. The
  subject is written without its leading pictograph.
\<close>

definition sendPasswordResetEmail ::
  "'w graph \<Rightarrow> ResetPasswordRequest \<Rightarrow> string \<Rightarrow> string \<Rightarrow> ('w, unit) io" where
  "sendPasswordResetEmail graphClient resetRequest upn newPassword =
     (let message =
            \<lparr>subject = ''Your EGG Events Password Has Been Reset'',
             contentType = ''HTML'',
             content = PasswordResetTemplate (ResetPasswordRequest.firstName resetRequest) upn newPassword,
             sender = None,
             toRecipients =
               [(the (personalEmail resetRequest),
                 Some (interpolate (ResetPasswordRequest.firstName resetRequest) @ '' '' @
                       interpolate (ResetPasswordRequest.lastName resetRequest)))],
             ccRecipients = [],
             bccRecipients = [],
             importance = None\<rparr>
      in api (SendMail SERVICE_ACCOUNT_EMAIL message False)
             (sendMail_post graphClient SERVICE_ACCOUNT_EMAIL message False))"

text \<open>The body of the \<^verbatim>\<open>catch\<close> block of \<^verbatim>\<open>resetFreelancerPassword\<close>.\<close>

definition resetFreelancerPassword_catch :: "string \<Rightarrow> gerror \<Rightarrow> http_response" where
  "resetFreelancerPassword_catch now error =
     (let errorMessage = or_else (message error) ''Unknown error'';
          (statusCode', userMessage) =
            (if code error = Some ''Request_ResourceNotFound''
               then (404, ''User not found. Please verify the user exists in Entra ID.'')
             else if statusCode error = Some 401 \<or> code error = Some ''InvalidAuthenticationToken''
               then (401, ''Authentication failed. Please check app permissions.'')
             else if statusCode error = Some 403
               then (403, ''Insufficient permissions to reset passwords.'')
             else if statusCode error = Some 429
               then (429, ''Rate limit exceeded. Please try again later.'')
             else (500, ''An unexpected error occurred while resetting the password.''))
      in \<lparr>status = statusCode',
          jsonBody = [(''success'', JBool False), (''error'', JStr userMessage),
                      (''details'', JStr errorMessage), (''timestamp'', JStr now)]\<rparr>)"

definition resetFreelancerPassword ::
  "'w graph \<Rightarrow> string \<Rightarrow> ((nat \<Rightarrow> int) \<Rightarrow> string \<Rightarrow> string) \<Rightarrow> (nat \<Rightarrow> nat) \<Rightarrow>
   gerror + ResetPasswordRequest \<Rightarrow> ('w, http_response) io" where
  "resetFreelancerPassword graphClient now array_sort rnd request =
     try_catch
       (bind (request_json request) (\<lambda>resetRequest.
          if (\<not> truthy (ResetPasswordRequest.userPrincipalName resetRequest) \<and>
              \<not> truthy (userId resetRequest)) \<or>
             \<not> truthy (ResetPasswordRequest.firstName resetRequest) \<or>
             \<not> truthy (ResetPasswordRequest.lastName resetRequest) \<or>
             \<not> truthy (personalEmail resetRequest)
          then ret \<lparr>status = 400,
                    jsonBody = [(''success'', JBool False),
                                (''error'', JStr ''Missing required fields: (userPrincipalName OR userId), firstName, lastName, personalEmail'')]\<rparr>
          else
            (let userIdentifier =
                   (if truthy (ResetPasswordRequest.userPrincipalName resetRequest)
                    then the (ResetPasswordRequest.userPrincipalName resetRequest)
                    else the (userId resetRequest))
             in bind
                  (try_catch
                     (bind (api (UsersGetSelect userIdentifier) (users_get graphClient userIdentifier))
                           (\<lambda>user. ret (Inr user)))
                     (\<lambda>error.
                        if statusCode error = Some 404
                        then ret (Inl
                               \<lparr>status = 404,
                                jsonBody = [(''success'', JBool False),
                                            (''error'', JStr ''User not found''),
                                            (''details'', JStr (''No user found with identifier: '' @ userIdentifier)),
                                            (''timestamp'', JStr now)]\<rparr>)
                        else throw error))
                  (\<lambda>found. case found of
                     Inl notFound \<Rightarrow> ret notFound
                   | Inr user \<Rightarrow>
                       (let newPassword = generateSecurePassword array_sort rnd
                        in bind (api (UserPasswordPatch (id_u user) newPassword)
                                     (password_patch graphClient (id_u user) newPassword))
                             (\<lambda>_. bind (sendPasswordResetEmail graphClient resetRequest
                                           (entra_user.userPrincipalName user) newPassword)
                               (\<lambda>_. ret
                                  \<lparr>status = 200,
                                   jsonBody = [(''success'', JBool True),
                                               (''newPassword'', JStr newPassword),
                                               (''userPrincipalName'', JStr (entra_user.userPrincipalName user)),
                                               (''timestamp'', JStr now)]\<rparr>)))))))
       (\<lambda>error. ret (resetFreelancerPassword_catch now error))"

section \<open>The send-mail handler\<close>

text \<open>\<^verbatim>\<open>from\<close> is written \<open>from_addr\<close>.\<close>

record EmailRequest =
  recipients :: "string list option"
  from_addr :: "string option"
  fromName :: "string option"
  subject :: "string option"
  body :: "string option"
  isHtml :: "bool option"

definition sendEmail_catch :: "string \<Rightarrow> gerror \<Rightarrow> http_response" where
  "sendEmail_catch now error =
     (let errorMessage = or_else (message error) ''Unknown error occurred'';
          (statusCode', userMessage) =
            (if statusCode error = Some 401
               then (401, ''Authentication failed. Please check app permissions.'')
             else if statusCode error = Some 403
               then (403, ''Insufficient permissions to send email.'')
             else if statusCode error = Some 404
               then (404, ''Sender email address not found.'')
             else if statusCode error = Some 429
               then (429, ''Rate limit exceeded. Please try again later.'')
             else (500, ''Failed to send email''))
      in \<lparr>status = statusCode',
          jsonBody = [(''success'', JBool False), (''error'', JStr userMessage),
                      (''details'', JStr errorMessage), (''timestamp'', JStr now)]\<rparr>)"

definition sendEmail :: "'w graph \<Rightarrow> string \<Rightarrow> EmailRequest option \<Rightarrow> ('w, http_response) io" where
  "sendEmail graphClient now req_body =
     try_catch
       (case req_body of
          None \<Rightarrow> ret \<lparr>status = 400,
                       jsonBody = [(''success'', JBool False), (''error'', JStr ''Request body is required'')]\<rparr>
        | Some emailRequest \<Rightarrow>
          if recipients emailRequest = None \<or>
             length (the (recipients emailRequest)) = 0 \<or>
             \<not> truthy (EmailRequest.subject emailRequest) \<or>
             \<not> truthy (body emailRequest) \<or>
             \<not> truthy (from_addr emailRequest)
          then ret \<lparr>status = 400,
                    jsonBody = [(''success'', JBool False),
                                (''error'', JStr ''Missing required fields: recipients, from, subject, body'')]\<rparr>
          else if length (the (recipients emailRequest)) > 50
          then ret \<lparr>status = 400,
                    jsonBody = [(''success'', JBool False),
                                (''error'', JStr ''Maximum 50 recipients allowed per email'')]\<rparr>
          else
            (let sanitizedBody = sanitizeHtml (the (body emailRequest));
                 message =
                   \<lparr>mail_message.subject = take 255 (the (EmailRequest.subject emailRequest)),
                    contentType = (if isHtml emailRequest = Some True then ''HTML'' else ''Text''),
                    content = Sanitized sanitizedBody,
                    sender = Some (the (from_addr emailRequest),
                                   or_else (fromName emailRequest) ''EGG Events''),
                    toRecipients = map (\<lambda>email. (email, None)) (the (recipients emailRequest)),
                    ccRecipients = [],
                    bccRecipients = [],
                    importance = None\<rparr>
             in bind (api (SendMail (the (from_addr emailRequest)) message True)
                          (sendMail_post graphClient (the (from_addr emailRequest)) message True))
                  (\<lambda>_. ret
                     \<lparr>status = 200,
                      jsonBody =
                        [(''success'', JBool True),
                         (''message'', JStr (''Email sent to '' @
                             string_of_nat (length (the (recipients emailRequest))) @ '' recipient(s)'')),
                         (''recipientCount'', JNum (int (length (the (recipients emailRequest))))),
                         (''timestamp'', JStr now)]\<rparr>)))
       (\<lambda>error. bind (context_error ''Error sending email:'')
                     (\<lambda>_. ret (sendEmail_catch now error)))"

section \<open>A directory in memory\<close>

text \<open>
  A small service to run the handlers against: a list of users, the members of the
  group, and two switches that make the add-member call and the mail send fail with a
  given error.
\<close>

record directory =
  dir_users :: "entra_user list"
  dir_members :: "string list"
  post_fault :: "gerror option"
  mail_fault :: "gerror option"

definition graph_error :: "int \<Rightarrow> string \<Rightarrow> string \<Rightarrow> gerror" where
  "graph_error sc c m = \<lparr>statusCode = Some sc, code = Some c, message = Some m, name = ''Error''\<rparr>"

definition memory_graph :: "directory graph" where
  "memory_graph =
     \<lparr>users_get = (\<lambda>key w.
        (case filter (\<lambda>u. id_u u = key \<or> entra_user.userPrincipalName u = key) (dir_users w) of
           [] \<Rightarrow> Inl (graph_error 404 ''Request_ResourceNotFound'' ''Resource does not exist'')
         | u # us \<Rightarrow> Inr u, w)),
      users_filter = (\<lambda>email w.
        (Inr (Some (filter (\<lambda>u. mail u = Some email \<or> entra_user.userPrincipalName u = email)
                      (dir_users w))), w)),
      invitations_post = (\<lambda>email display url w.
        (Inr \<lparr>invitedUser_id = ''guest:'' @ email, invitedUserEmailAddress = email\<rparr>,
         w\<lparr>dir_users := dir_users w @
              [\<lparr>id_u = ''guest:'' @ email, userPrincipalName = email, mail = Some email,
                displayName = Some display\<rparr>]\<rparr>)),
      members_filter = (\<lambda>g uid w. (Inr (Some (filter (\<lambda>m. m = uid) (dir_members w))), w)),
      members_ref_post = (\<lambda>g uid w.
        (case post_fault w of
           Some e \<Rightarrow> (Inl e, w)
         | None \<Rightarrow>
             if uid \<in> set (dir_members w)
             then (Inl (graph_error 400 ''Request_BadRequest''
                          ''One or more added object references already exist''), w)
             else (Inr (), w\<lparr>dir_members := dir_members w @ [uid]\<rparr>))),
      members_ref_delete = (\<lambda>g uid w.
        if uid \<in> set (dir_members w)
        then (Inr (), w\<lparr>dir_members := filter (\<lambda>m. m \<noteq> uid) (dir_members w)\<rparr>)
        else (Inl (graph_error 404 ''Request_ResourceNotFound'' ''Resource does not exist''), w)),
      sites_get = (\<lambda>host path w. (Inr ''site-1'', w)),
      fields_patch = (\<lambda>site list item fs w. (Inr (), w)),
      password_patch = (\<lambda>uid pw w. (Inr (), w)),
      sendMail_post = (\<lambda>sender m save w.
        (case mail_fault w of Some e \<Rightarrow> Inl e | None \<Rightarrow> Inr (), w))\<rparr>"

definition empty_directory :: directory where
  "empty_directory = \<lparr>dir_users = [], dir_members = [], post_fault = None, mail_fault = None\<rparr>"

text \<open>A user of the directory, and a bad request that has nothing to do with membership.\<close>

definition alice :: entra_user where
  "alice = \<lparr>id_u = ''7f1c'', userPrincipalName = ''alice.talent@egg-events.com'',
            mail = Some ''alice@example.org'', displayName = Some ''Alice Example''\<rparr>"

definition bad_request :: gerror where
  "bad_request = graph_error 400 ''Request_BadRequest'' ''Invalid object identifier''"

text \<open>The guest that an invitation of A B at a@b.com leaves in the directory.\<close>

definition guest_ab :: entra_user where
  "guest_ab = \<lparr>id_u = ''guest:a@b.com'', userPrincipalName = ''a@b.com'', mail = Some ''a@b.com'',
               displayName = Some ''A B''\<rparr>"

text \<open>A supplier who declines, with no manager to notify, and a reading of the clock.\<close>

definition decline :: ActivityResponseRequest where
  "decline = \<lparr>ActivityResponseRequest.response = Some ''No'',
               supplierEmail = Some ''sam@example.org'',
               supplierName = Some ''Sam Supplier'',
               ActivityResponseRequest.firstName = Some ''Sam'',
               ActivityResponseRequest.entraObjectId = Some ''7f1c'',
               sharePointItemId = Some ''42'',
               requestedByEmail = None\<rparr>"

definition a_moment :: string where
  "a_moment = ''2026-01-01T00:00:00.000Z''"

text \<open>
  A supplier who confirms, one who declines with a manager to notify, a reset for Alice,
  and a directory whose mail service is down.
\<close>

definition confirm :: ActivityResponseRequest where
  "confirm = \<lparr>ActivityResponseRequest.response = Some ''YES'',
               supplierEmail = Some ''sam@example.org'',
               supplierName = Some ''Sam Supplier'',
               ActivityResponseRequest.firstName = Some ''Sam'',
               ActivityResponseRequest.entraObjectId = Some ''7f1c'',
               sharePointItemId = Some ''42'',
               requestedByEmail = None\<rparr>"

definition decline_notify :: ActivityResponseRequest where
  "decline_notify = decline\<lparr>requestedByEmail := Some ''manager@egg-events.com''\<rparr>"

definition reset_alice :: ResetPasswordRequest where
  "reset_alice = \<lparr>ResetPasswordRequest.userPrincipalName = Some ''alice.talent@egg-events.com'',
                   userId = None,
                   ResetPasswordRequest.firstName = Some ''Alice'',
                   ResetPasswordRequest.lastName = Some ''Example'',
                   personalEmail = Some ''alice@example.org''\<rparr>"

definition mail_down :: gerror where
  "mail_down = graph_error 503 ''ServiceUnavailable'' ''Mailbox unavailable''"

definition no_mail_directory :: directory where
  "no_mail_directory = \<lparr>dir_users = [alice], dir_members = [], post_fault = None,
                          mail_fault = Some mail_down\<rparr>"

text \<open>The table of the response formatter, as the specification gives it.\<close>

definition spec_error_status :: "int option \<Rightarrow> int" where
  "spec_error_status remote =
     (if remote = Some 401 then 401
      else if remote = Some 403 then 403
      else if remote = Some 404 then 404
      else if remote = Some 429 then 429
      else 500)"

text \<open>A service that refuses every call with the same error.\<close>

definition failing_graph :: "gerror \<Rightarrow> unit graph" where
  "failing_graph e =
     \<lparr>users_get = (\<lambda>key w. (Inl e, w)),
      users_filter = (\<lambda>email w. (Inl e, w)),
      invitations_post = (\<lambda>email display url w. (Inl e, w)),
      members_filter = (\<lambda>g uid w. (Inl e, w)),
      members_ref_post = (\<lambda>g uid w. (Inl e, w)),
      members_ref_delete = (\<lambda>g uid w. (Inl e, w)),
      sites_get = (\<lambda>host path w. (Inl e, w)),
      fields_patch = (\<lambda>site list item fs w. (Inl e, w)),
      password_patch = (\<lambda>uid pw w. (Inl e, w)),
      sendMail_post = (\<lambda>from_user m save w. (Inl e, w))\<rparr>"

definition token_expired :: gerror where
  "token_expired = graph_error 401 ''InvalidAuthenticationToken'' ''Access token has expired''"

definition too_many_requests :: gerror where
  "too_many_requests = graph_error 429 ''TooManyRequests'' ''Too many requests''"

definition request_denied :: gerror where
  "request_denied = graph_error 403 ''Authorization_RequestDenied'' ''Insufficient privileges''"

text \<open>A license request without hints, and a mail request.\<close>

definition license_ab :: LicenseRequest where
  "license_ab = \<lparr>userEmail = Some ''a@b.com'', entraUPN = None,
                  LicenseRequest.entraObjectId = None,
                  LicenseRequest.firstName = Some ''A'', LicenseRequest.lastName = Some ''B'',
                  isActive = Boolean True\<rparr>"

definition newsletter :: EmailRequest where
  "newsletter = \<lparr>recipients = Some [''sam@example.org''],
                  from_addr = Some ''noreply@egg-events.com'',
                  fromName = None,
                  EmailRequest.subject = Some ''News'',
                  body = Some ''Hello'',
                  isHtml = Some True\<rparr>"

text \<open>
  The error of a sender whose mailbox cannot be used, a directory whose mail service
  answers with it, and a service on which the site lookup succeeds while the removal and
  the patch answer as told and every other call is refused.
\<close>

definition mailbox_disabled :: gerror where
  "mailbox_disabled = graph_error 404 ''MailboxNotEnabledForRESTAPI'' ''The mailbox is inactive''"

definition disabled_mailbox_directory :: directory where
  "disabled_mailbox_directory = \<lparr>dir_users = [alice], dir_members = [], post_fault = None,
                                   mail_fault = Some mailbox_disabled\<rparr>"

definition partial_graph :: "gerror + unit \<Rightarrow> gerror + unit \<Rightarrow> unit graph" where
  "partial_graph removal patching =
     (failing_graph request_denied)
       \<lparr>members_ref_delete := (\<lambda>g uid w. (removal, w)),
        sites_get := (\<lambda>host path w. (Inr ''site-1'', w)),
        fields_patch := (\<lambda>site list item fs w. (patching, w))\<rparr>"


section \<open>Membership of the license group\<close>

lemmas io_defs = ret_def throw_def bind_def try_catch_def context_error_def api_def request_json_def

text \<open>
  C7. \<^verbatim>\<open>removeUserFromGroup\<close>, in manageLicense.ts and in handleActivityResponse.ts,
  issues the one delete-relationship call. When the call succeeds the function returns;
  when it fails with status 404 (the user was not in the group) the function returns as
  well; any other error is thrown on to the caller unchanged, after an error line.
\<close>

theorem removeUserFromGroup_not_found_is_success:
  "(members_ref_delete g OFFICE365_E1_GROUP_ID uid w = (Inr (), w') \<longrightarrow>
      removeUserFromGroup g uid (w, tr) =
        (Inr (), (w', tr @ [Call (GroupMembersRefDelete OFFICE365_E1_GROUP_ID uid)])) \<and>
      removeUserFromGroup_activity g uid (w, tr) =
        (Inr (), (w', tr @ [Call (GroupMembersRefDelete OFFICE365_E1_GROUP_ID uid)]))) \<and>
   (members_ref_delete g OFFICE365_E1_GROUP_ID uid w = (Inl e, w') \<and> statusCode e = Some 404 \<longrightarrow>
      removeUserFromGroup g uid (w, tr) =
        (Inr (), (w', tr @ [Call (GroupMembersRefDelete OFFICE365_E1_GROUP_ID uid)])) \<and>
      removeUserFromGroup_activity g uid (w, tr) =
        (Inr (), (w', tr @ [Call (GroupMembersRefDelete OFFICE365_E1_GROUP_ID uid)]))) \<and>
   (members_ref_delete g OFFICE365_E1_GROUP_ID uid w = (Inl e, w') \<and> statusCode e \<noteq> Some 404 \<longrightarrow>
      removeUserFromGroup g uid (w, tr) =
        (Inl e, (w', tr @ [Call (GroupMembersRefDelete OFFICE365_E1_GROUP_ID uid),
                           ErrorLog ''Error removing user from group:''])) \<and>
      removeUserFromGroup_activity g uid (w, tr) =
        (Inl e, (w', tr @ [Call (GroupMembersRefDelete OFFICE365_E1_GROUP_ID uid),
                           ErrorLog ''Error removing user from group:''])))"
  by (simp add: removeUserFromGroup_def removeUserFromGroup_activity_def io_defs)

theorem removeUserFromGroup_not_found_is_success_witness:
  "members_ref_delete memory_graph OFFICE365_E1_GROUP_ID ''u1'' empty_directory =
     (Inl (graph_error 404 ''Request_ResourceNotFound'' ''Resource does not exist''), empty_directory) \<and>
   statusCode (graph_error 404 ''Request_ResourceNotFound'' ''Resource does not exist'') = Some 404 \<and>
   removeUserFromGroup memory_graph ''u1'' (empty_directory, []) =
     (Inr (), (empty_directory, [Call (GroupMembersRefDelete OFFICE365_E1_GROUP_ID ''u1'')])) \<and>
   removeUserFromGroup_activity memory_graph ''u1'' (empty_directory, []) =
     (Inr (), (empty_directory, [Call (GroupMembersRefDelete OFFICE365_E1_GROUP_ID ''u1'')]))"
proof -
  have call: "members_ref_delete memory_graph OFFICE365_E1_GROUP_ID ''u1'' empty_directory =
     (Inl (graph_error 404 ''Request_ResourceNotFound'' ''Resource does not exist''), empty_directory)"
    by (simp add: memory_graph_def empty_directory_def)
  have sc: "statusCode (graph_error 404 ''Request_ResourceNotFound'' ''Resource does not exist'') = Some 404"
    by (simp add: graph_error_def)
  from removeUserFromGroup_not_found_is_success
         [where g = memory_graph and uid = "''u1''" and w = empty_directory and w' = empty_directory
            and e = "graph_error 404 ''Request_ResourceNotFound'' ''Resource does not exist''"
            and tr = "[]"]
       call sc
  show ?thesis by simp
qed

text \<open>
  C1. \<^verbatim>\<open>addUserToGroup\<close> of manageLicense.ts at an error that is no "already exists":
  the add-member call fails with status 400, code \<^verbatim>\<open>Request_BadRequest\<close> and the message
  "Invalid object identifier". The message contains neither "already exist" nor "already
  a member", yet the function returns normally, because the third disjunct of its test
  accepts the code alone. The earlier variant, at the same error, throws it on.
\<close>

theorem addUserToGroup_swallows_any_bad_request:
  "members_ref_post memory_graph OFFICE365_E1_GROUP_ID ''u1''
      (empty_directory\<lparr>post_fault := Some bad_request\<rparr>) =
     (Inl bad_request, empty_directory\<lparr>post_fault := Some bad_request\<rparr>) \<and>
   \<not> message_includes bad_request ''already exist'' \<and>
   \<not> message_includes bad_request ''already a member'' \<and>
   fst (addUserToGroup memory_graph ''u1'' (empty_directory\<lparr>post_fault := Some bad_request\<rparr>, [])) = Inr () \<and>
   fst (addUserToGroup_v1 memory_graph ''u1'' (empty_directory\<lparr>post_fault := Some bad_request\<rparr>, []))
     = Inl bad_request"
  by (simp add: addUserToGroup_def addUserToGroup_v1_def io_defs memory_graph_def empty_directory_def
        bad_request_def graph_error_def message_includes_def)

section \<open>Resolving the user\<close>

text \<open>
  C4. When an object id is given and the point lookup by that id succeeds,
  \<^verbatim>\<open>findOrCreateUser\<close> returns the user found, and the lookup is the only call it
  issues: no lookup by principal name, no search, no invitation.
\<close>

theorem findOrCreateUser_by_object_id:
  assumes "truthy oid"
    and "users_get g (the oid) w = (Inr user, w')"
  shows "findOrCreateUser g oid upn email fname lname (w, tr) =
           (Inr user, (w', tr @ [Call (UsersGet (the oid))]))"
  using assms by (simp add: findOrCreateUser_def io_defs)

theorem findOrCreateUser_by_object_id_witness:
  "truthy (Some ''7f1c'') \<and>
   users_get memory_graph (the (Some ''7f1c'')) (empty_directory\<lparr>dir_users := [alice]\<rparr>) =
     (Inr alice, empty_directory\<lparr>dir_users := [alice]\<rparr>) \<and>
   findOrCreateUser memory_graph (Some ''7f1c'') (Some ''alice.talent@egg-events.com'')
       ''alice@example.org'' ''Alice'' ''Example'' (empty_directory\<lparr>dir_users := [alice]\<rparr>, []) =
     (Inr alice, (empty_directory\<lparr>dir_users := [alice]\<rparr>, [Call (UsersGet ''7f1c'')]))"
proof -
  have t: "truthy (Some ''7f1c'')" by (simp add: truthy_def)
  have c: "users_get memory_graph (the (Some ''7f1c'')) (empty_directory\<lparr>dir_users := [alice]\<rparr>) =
     (Inr alice, empty_directory\<lparr>dir_users := [alice]\<rparr>)"
    by (simp add: memory_graph_def empty_directory_def alice_def)
  from findOrCreateUser_by_object_id [OF t c] t c show ?thesis by simp
qed

lemma calls_of_append: "calls_of (xs @ ys) = calls_of xs @ calls_of ys"
  by (induction xs rule: calls_of.induct) simp_all


text \<open>
  C5, as the claim has it, at a directory with no user: \<^verbatim>\<open>findOrCreateUser\<close> for
  first name A and last name B synthesizes the display name "A B", which is not the
  concatenation "AB" of the two names.
\<close>

theorem findOrCreateUser_displayName_counterexample:
  "fst (findOrCreateUser memory_graph None None ''a@b.com'' ''A'' ''B'' (empty_directory, [])) =
     Inr \<lparr>id_u = ''guest:a@b.com'', userPrincipalName = ''a@b.com'', mail = Some ''a@b.com'',
          displayName = Some ''A B''\<rparr> \<and>
   Some ''A B'' \<noteq> Some (''A'' @ ''B'')"
  by (simp add: findOrCreateUser_def io_defs memory_graph_def empty_directory_def truthy_def)


text \<open>
  C5, amended. In both variants of \<^verbatim>\<open>findOrCreateUser\<close> the invitation is always the
  last strategy (there is no switch for it). When every lookup that is tried throws, the
  search answers without a match, and the invitation call succeeds with a response that
  carries the invited address, exactly one invitation call is issued, and the record
  returned has the id of the invited user, the input email as principal name and as
  mail, and first name, one space, last name as display name.
\<close>

theorem findOrCreateUser_invites_when_nothing_found:
  "((\<not> truthy oid \<and> wa = w \<or> truthy oid \<and> (\<exists>e. users_get g (the oid) w = (Inl e, wa))) \<and>
    (\<not> truthy upn \<and> wb = wa \<or> truthy upn \<and> (\<exists>e. users_get g (the upn) wa = (Inl e, wb))) \<and>
    users_filter g email wb = (Inr found, wc) \<and> (found = None \<or> found = Some []) \<and>
    invitations_post g email (fname @ '' '' @ lname) ''https://portal.azure.com'' wc = (Inr invt, wd) \<and>
    invitedUserEmailAddress invt = email
    \<longrightarrow>
    findOrCreateUser g oid upn email fname lname (w, tr) =
      (Inr \<lparr>id_u = invitedUser_id invt,
            userPrincipalName = email,
            mail = Some email,
            displayName = Some (fname @ '' '' @ lname)\<rparr>,
       (wd, tr @ (if truthy oid then [Call (UsersGet (the oid))] else [])
               @ (if truthy upn then [Call (UsersGet (the upn))] else [])
               @ [Call (UsersFilter email False),
                  Call (InvitationsPost email (fname @ '' '' @ lname) ''https://portal.azure.com'')])) \<and>
    length (filter is_InvitationsPost
              (calls_of (snd (snd (findOrCreateUser g oid upn email fname lname (w, tr)))))) =
      Suc (length (filter is_InvitationsPost (calls_of tr)))) \<and>
   (users_filter g email v = (Inr found, va) \<and> (found = None \<or> found = Some []) \<and>
    invitations_post g email (fname @ '' '' @ lname) ''https://myapps.microsoft.com'' va = (Inr invt, vb) \<and>
    invitedUserEmailAddress invt = email
    \<longrightarrow>
    findOrCreateUser_v1 g email fname lname (v, tr) =
      (Inr \<lparr>id_u = invitedUser_id invt,
            userPrincipalName = email,
            mail = Some email,
            displayName = Some (fname @ '' '' @ lname)\<rparr>,
       (vb, tr @ [Call (UsersFilter email True),
                  Call (InvitationsPost email (fname @ '' '' @ lname) ''https://myapps.microsoft.com'')])) \<and>
    length (filter is_InvitationsPost
              (calls_of (snd (snd (findOrCreateUser_v1 g email fname lname (v, tr)))))) =
      Suc (length (filter is_InvitationsPost (calls_of tr))))"
proof (intro conjI impI)
  assume h: "(\<not> truthy oid \<and> wa = w \<or> truthy oid \<and> (\<exists>e. users_get g (the oid) w = (Inl e, wa))) \<and>
    (\<not> truthy upn \<and> wb = wa \<or> truthy upn \<and> (\<exists>e. users_get g (the upn) wa = (Inl e, wb))) \<and>
    users_filter g email wb = (Inr found, wc) \<and> (found = None \<or> found = Some []) \<and>
    invitations_post g email (fname @ '' '' @ lname) ''https://portal.azure.com'' wc = (Inr invt, wd) \<and>
    invitedUserEmailAddress invt = email"
  show r: "findOrCreateUser g oid upn email fname lname (w, tr) =
      (Inr \<lparr>id_u = invitedUser_id invt,
            userPrincipalName = email,
            mail = Some email,
            displayName = Some (fname @ '' '' @ lname)\<rparr>,
       (wd, tr @ (if truthy oid then [Call (UsersGet (the oid))] else [])
               @ (if truthy upn then [Call (UsersGet (the upn))] else [])
               @ [Call (UsersFilter email False),
                  Call (InvitationsPost email (fname @ '' '' @ lname) ''https://portal.azure.com'')]))"
    using h by (auto simp: findOrCreateUser_def io_defs)
  show "length (filter is_InvitationsPost
              (calls_of (snd (snd (findOrCreateUser g oid upn email fname lname (w, tr)))))) =
      Suc (length (filter is_InvitationsPost (calls_of tr)))"
    by (simp add: r calls_of_append)
next
  assume h: "users_filter g email v = (Inr found, va) \<and> (found = None \<or> found = Some []) \<and>
    invitations_post g email (fname @ '' '' @ lname) ''https://myapps.microsoft.com'' va = (Inr invt, vb) \<and>
    invitedUserEmailAddress invt = email"
  then show r: "findOrCreateUser_v1 g email fname lname (v, tr) =
      (Inr \<lparr>id_u = invitedUser_id invt,
            userPrincipalName = email,
            mail = Some email,
            displayName = Some (fname @ '' '' @ lname)\<rparr>,
       (vb, tr @ [Call (UsersFilter email True),
                  Call (InvitationsPost email (fname @ '' '' @ lname) ''https://myapps.microsoft.com'')]))"
    by (auto simp: findOrCreateUser_v1_def io_defs)
  show "length (filter is_InvitationsPost
              (calls_of (snd (snd (findOrCreateUser_v1 g email fname lname (v, tr)))))) =
      Suc (length (filter is_InvitationsPost (calls_of tr)))"
    by (simp add: r calls_of_append)
qed


theorem findOrCreateUser_invites_when_nothing_found_witness:
  "findOrCreateUser memory_graph None None ''a@b.com'' ''A'' ''B'' (empty_directory, []) =
     (Inr guest_ab,
      (empty_directory\<lparr>dir_users := [guest_ab]\<rparr>,
       [Call (UsersFilter ''a@b.com'' False),
        Call (InvitationsPost ''a@b.com'' ''A B'' ''https://portal.azure.com'')])) \<and>
   findOrCreateUser_v1 memory_graph ''a@b.com'' ''A'' ''B'' (empty_directory, []) =
     (Inr guest_ab,
      (empty_directory\<lparr>dir_users := [guest_ab]\<rparr>,
       [Call (UsersFilter ''a@b.com'' True),
        Call (InvitationsPost ''a@b.com'' ''A B'' ''https://myapps.microsoft.com'')]))"
proof -
  have n: "\<not> truthy None" by (simp add: truthy_def)
  have s: "users_filter memory_graph ''a@b.com'' empty_directory = (Inr (Some []), empty_directory)"
    by (simp add: memory_graph_def empty_directory_def)
  have i: "invitations_post memory_graph ''a@b.com'' (''A'' @ '' '' @ ''B'') url empty_directory =
      (Inr \<lparr>invitedUser_id = ''guest:a@b.com'', invitedUserEmailAddress = ''a@b.com''\<rparr>,
       empty_directory\<lparr>dir_users := [guest_ab]\<rparr>)" for url
    by (simp add: memory_graph_def empty_directory_def guest_ab_def)
  have echo: "invitedUserEmailAddress
      \<lparr>invitedUser_id = ''guest:a@b.com'', invitedUserEmailAddress = ''a@b.com''\<rparr> = ''a@b.com''"
    by simp
  from findOrCreateUser_invites_when_nothing_found
         [where g = memory_graph and oid = None and upn = None and email = "''a@b.com''"
            and fname = "''A''" and lname = "''B''" and w = empty_directory and wa = empty_directory
            and wb = empty_directory and wc = empty_directory
            and wd = "empty_directory\<lparr>dir_users := [guest_ab]\<rparr>"
            and v = empty_directory and va = empty_directory
            and vb = "empty_directory\<lparr>dir_users := [guest_ab]\<rparr>"
            and found = "Some []" and tr = "[]"
            and invt = "\<lparr>invitedUser_id = ''guest:a@b.com'', invitedUserEmailAddress = ''a@b.com''\<rparr>"]
       n s i echo
  show ?thesis by (simp add: guest_ab_def)
qed

section \<open>Declining without a manager to notify\<close>

lemmas activity_defs = handleActivityResponse_def getSharePointSiteId_def updateSharePointItem_def
  removeUserFromGroup_activity_def sendConfirmationEmail_def sendManagerNotification_def


text \<open>
  C10. A request with all four checked fields, a response that lower-cases to "no" and
  no \<^verbatim>\<open>requestedByEmail\<close>: whatever the service answers, the invocation issues no
  send; and when the site lookup succeeds, the group removal succeeds or fails with 404,
  and the record patch succeeds, the calls are exactly the site lookup, the removal and
  the patch, and the response is 200 with action "license_removed".
\<close>

theorem handleActivityResponse_no_without_manager:
  assumes "truthy (ActivityResponseRequest.response r)"
    and "truthy (supplierEmail r)"
    and "truthy (ActivityResponseRequest.entraObjectId r)"
    and "truthy (sharePointItemId r)"
    and "toLowerCase (the (ActivityResponseRequest.response r)) = ''no''"
    and "requestedByEmail r = None"
  shows "filter is_SendMail (calls_of (snd (snd (handleActivityResponse g now (Inr r) (w, tr))))) =
           filter is_SendMail (calls_of tr) \<and>
         (sites_get g ''egginthenest.sharepoint.com'' ''/sites/INTRANET'' w = (Inr siteId, wa) \<and>
          members_ref_delete g OFFICE365_E1_GROUP_ID (the (ActivityResponseRequest.entraObjectId r)) wa
            = (removed, wb) \<and>
          (removed = Inr () \<or> (\<exists>e. removed = Inl e \<and> statusCode e = Some 404)) \<and>
          fields_patch g siteId SHAREPOINT_LIST_ID (the (sharePointItemId r))
             [(''supplierdb_SendToEntra'', JBool False),
              (''supplierdb_ActivityCheckStatus'', JStr ''License Removed - User Declined''),
              (''supplierdb_LicenseRemovedDate'', JStr now)] wb = (Inr (), wc)
          \<longrightarrow>
          handleActivityResponse g now (Inr r) (w, tr) =
            (Inr \<lparr>status = 200,
                  jsonBody = [(''success'', JBool True),
                              (''action'', JStr ''license_removed''),
                              (''message'', JStr ''License removed and manager notified''),
                              (''timestamp'', JStr now)]\<rparr>,
             (wc, tr @ [Call (SitesGet ''egginthenest.sharepoint.com'' ''/sites/INTRANET''),
                        Call (GroupMembersRefDelete OFFICE365_E1_GROUP_ID
                                (the (ActivityResponseRequest.entraObjectId r))),
                        Call (ListItemFieldsPatch siteId SHAREPOINT_LIST_ID (the (sharePointItemId r))
                                [(''supplierdb_SendToEntra'', JBool False),
                                 (''supplierdb_ActivityCheckStatus'', JStr ''License Removed - User Declined''),
                                 (''supplierdb_LicenseRemovedDate'', JStr now)])])))"
proof (intro conjI impI)
  have nm: "\<not> truthy (requestedByEmail r)" using assms(6) by (simp add: truthy_def)
  show "filter is_SendMail (calls_of (snd (snd (handleActivityResponse g now (Inr r) (w, tr))))) =
           filter is_SendMail (calls_of tr)"
    using assms(1-5) nm
    by (simp add: activity_defs io_defs calls_of_append split: prod.splits sum.splits)
  assume "sites_get g ''egginthenest.sharepoint.com'' ''/sites/INTRANET'' w = (Inr siteId, wa) \<and>
          members_ref_delete g OFFICE365_E1_GROUP_ID (the (ActivityResponseRequest.entraObjectId r)) wa
            = (removed, wb) \<and>
          (removed = Inr () \<or> (\<exists>e. removed = Inl e \<and> statusCode e = Some 404)) \<and>
          fields_patch g siteId SHAREPOINT_LIST_ID (the (sharePointItemId r))
             [(''supplierdb_SendToEntra'', JBool False),
              (''supplierdb_ActivityCheckStatus'', JStr ''License Removed - User Declined''),
              (''supplierdb_LicenseRemovedDate'', JStr now)] wb = (Inr (), wc)"
  then show "handleActivityResponse g now (Inr r) (w, tr) =
            (Inr \<lparr>status = 200,
                  jsonBody = [(''success'', JBool True),
                              (''action'', JStr ''license_removed''),
                              (''message'', JStr ''License removed and manager notified''),
                              (''timestamp'', JStr now)]\<rparr>,
             (wc, tr @ [Call (SitesGet ''egginthenest.sharepoint.com'' ''/sites/INTRANET''),
                        Call (GroupMembersRefDelete OFFICE365_E1_GROUP_ID
                                (the (ActivityResponseRequest.entraObjectId r))),
                        Call (ListItemFieldsPatch siteId SHAREPOINT_LIST_ID (the (sharePointItemId r))
                                [(''supplierdb_SendToEntra'', JBool False),
                                 (''supplierdb_ActivityCheckStatus'', JStr ''License Removed - User Declined''),
                                 (''supplierdb_LicenseRemovedDate'', JStr now)])]))"
    using assms(1-5) nm
    by (auto simp: activity_defs io_defs)
qed


theorem handleActivityResponse_no_without_manager_witness:
  "toLowerCase (the (ActivityResponseRequest.response decline)) = ''no'' \<and>
   requestedByEmail decline = None \<and>
   filter is_SendMail
     (calls_of (snd (snd (handleActivityResponse memory_graph a_moment (Inr decline) (empty_directory, [])))))
     = [] \<and>
   handleActivityResponse memory_graph a_moment (Inr decline) (empty_directory, []) =
     (Inr \<lparr>status = 200,
           jsonBody = [(''success'', JBool True),
                       (''action'', JStr ''license_removed''),
                       (''message'', JStr ''License removed and manager notified''),
                       (''timestamp'', JStr a_moment)]\<rparr>,
      (empty_directory,
       [Call (SitesGet ''egginthenest.sharepoint.com'' ''/sites/INTRANET''),
        Call (GroupMembersRefDelete OFFICE365_E1_GROUP_ID ''7f1c''),
        Call (ListItemFieldsPatch ''site-1'' SHAREPOINT_LIST_ID ''42''
                [(''supplierdb_SendToEntra'', JBool False),
                 (''supplierdb_ActivityCheckStatus'', JStr ''License Removed - User Declined''),
                 (''supplierdb_LicenseRemovedDate'', JStr a_moment)])]))"
proof -
  have f: "truthy (ActivityResponseRequest.response decline)" "truthy (supplierEmail decline)"
    "truthy (ActivityResponseRequest.entraObjectId decline)" "truthy (sharePointItemId decline)"
    by (simp_all add: decline_def truthy_def)
  have l: "toLowerCase (the (ActivityResponseRequest.response decline)) = ''no''"
    by (simp add: decline_def toLowerCase_def toLowerCase_char_def)
  have m: "requestedByEmail decline = None"
    by (simp add: decline_def)
  have s: "sites_get memory_graph ''egginthenest.sharepoint.com'' ''/sites/INTRANET'' empty_directory =
      (Inr ''site-1'', empty_directory)"
    by (simp add: memory_graph_def)
  have d: "members_ref_delete memory_graph OFFICE365_E1_GROUP_ID
             (the (ActivityResponseRequest.entraObjectId decline)) empty_directory =
      (Inl (graph_error 404 ''Request_ResourceNotFound'' ''Resource does not exist''), empty_directory)"
    by (simp add: memory_graph_def empty_directory_def)
  have e: "statusCode (graph_error 404 ''Request_ResourceNotFound'' ''Resource does not exist'') = Some 404"
    by (simp add: graph_error_def)
  have p: "fields_patch memory_graph ''site-1'' SHAREPOINT_LIST_ID (the (sharePointItemId decline)) fs
             empty_directory = (Inr (), empty_directory)" for fs
    by (simp add: memory_graph_def)
  have i: "the (ActivityResponseRequest.entraObjectId decline) = ''7f1c''"
    "the (sharePointItemId decline) = ''42''"
    by (simp_all add: decline_def)
  from handleActivityResponse_no_without_manager
         [OF f l m, where g = memory_graph and now = a_moment and w = empty_directory
            and tr = "[]" and siteId = "''site-1''" and wa = empty_directory and wb = empty_directory
            and wc = empty_directory
            and removed = "Inl (graph_error 404 ''Request_ResourceNotFound'' ''Resource does not exist'')"]
       l m s d e p i
  show ?thesis by simp
qed

section \<open>A send that fails after the state has changed\<close>

lemma reset_catch_is_failure:
  "status (resetFreelancerPassword_catch now e) \<in> {401, 403, 404, 429, 500} \<and>
   map_of (jsonBody (resetFreelancerPassword_catch now e)) ''success'' = Some (JBool False)"
  by (simp add: resetFreelancerPassword_catch_def Let_def)

lemma activity_yes_send_failure:
  assumes "truthy (ActivityResponseRequest.response r)"
    and "truthy (supplierEmail r)"
    and "truthy (ActivityResponseRequest.entraObjectId r)"
    and "truthy (sharePointItemId r)"
    and "toLowerCase (the (ActivityResponseRequest.response r)) = ''yes''"
    and "sites_get g ''egginthenest.sharepoint.com'' ''/sites/INTRANET'' w = (Inr siteId, wa)"
    and "fields_patch g siteId SHAREPOINT_LIST_ID (the (sharePointItemId r))
             [(''supplierdb_LastActivityCheck'', JStr now),
              (''supplierdb_ActivityReminderCount'', JNum 0),
              (''supplierdb_ActivityCheckStatus'', JStr ''Active'')] wa = (Inr (), wb)"
    and "sendMail_post g SERVICE_ACCOUNT_EMAIL
           \<lparr>mail_message.subject = ''Thank you - Activity Confirmed'',
            contentType = ''HTML'',
            content = ConfirmationTemplate (ActivityResponseRequest.firstName r),
            sender = None,
            toRecipients = [(the (supplierEmail r), None)],
            ccRecipients = [],
            bccRecipients = [],
            importance = None\<rparr> False wb = (Inl e, wc)"
  shows "handleActivityResponse g now (Inr r) (w, tr) =
           (Inr \<lparr>status = 200,
                 jsonBody = [(''success'', JBool True),
                             (''action'', JStr ''activity_confirmed''),
                             (''message'', JStr ''Activity confirmed and SharePoint updated''),
                             (''timestamp'', JStr now)]\<rparr>,
            (wc, tr @
              [Call (SitesGet ''egginthenest.sharepoint.com'' ''/sites/INTRANET''),
               Call (ListItemFieldsPatch siteId SHAREPOINT_LIST_ID (the (sharePointItemId r))
                       [(''supplierdb_LastActivityCheck'', JStr now),
                        (''supplierdb_ActivityReminderCount'', JNum 0),
                        (''supplierdb_ActivityCheckStatus'', JStr ''Active'')]),
               Call (SendMail SERVICE_ACCOUNT_EMAIL
                       \<lparr>mail_message.subject = ''Thank you - Activity Confirmed'',
                        contentType = ''HTML'',
                        content = ConfirmationTemplate (ActivityResponseRequest.firstName r),
                        sender = None,
                        toRecipients = [(the (supplierEmail r), None)],
                        ccRecipients = [],
                        bccRecipients = [],
                        importance = None\<rparr> False),
               ErrorLog ''Error sending confirmation email:'']))"
  using assms by (simp add: activity_defs io_defs Let_def)

lemma activity_no_send_failure:
  assumes "truthy (ActivityResponseRequest.response r)"
    and "truthy (supplierEmail r)"
    and "truthy (ActivityResponseRequest.entraObjectId r)"
    and "truthy (sharePointItemId r)"
    and "toLowerCase (the (ActivityResponseRequest.response r)) = ''no''"
    and "truthy (requestedByEmail r)"
    and "sites_get g ''egginthenest.sharepoint.com'' ''/sites/INTRANET'' w = (Inr siteId, wa)"
    and "members_ref_delete g OFFICE365_E1_GROUP_ID (the (ActivityResponseRequest.entraObjectId r)) wa
            = (removed, wb)"
    and "removed = Inr () \<or> (\<exists>e'. removed = Inl e' \<and> statusCode e' = Some 404)"
    and "fields_patch g siteId SHAREPOINT_LIST_ID (the (sharePointItemId r))
             [(''supplierdb_SendToEntra'', JBool False),
              (''supplierdb_ActivityCheckStatus'', JStr ''License Removed - User Declined''),
              (''supplierdb_LicenseRemovedDate'', JStr now)] wb = (Inr (), wc)"
    and "sendMail_post g SERVICE_ACCOUNT_EMAIL
           \<lparr>mail_message.subject = ''Freelancer Account Deactivated - '' @ interpolate (supplierName r),
            contentType = ''HTML'',
            content = ManagerTemplate (supplierName r) (the (supplierEmail r)),
            sender = None,
            toRecipients = [(the (requestedByEmail r), None)],
            ccRecipients = [''OnBoard-Talent@egg-events.com''],
            bccRecipients = [''dl_freelanceonboarding@egg-events.com''],
            importance = Some ''High''\<rparr> False wc = (Inl e, wd)"
  shows "handleActivityResponse g now (Inr r) (w, tr) =
           (Inr \<lparr>status = 200,
                 jsonBody = [(''success'', JBool True),
                             (''action'', JStr ''license_removed''),
                             (''message'', JStr ''License removed and manager notified''),
                             (''timestamp'', JStr now)]\<rparr>,
            (wd, tr @
              [Call (SitesGet ''egginthenest.sharepoint.com'' ''/sites/INTRANET''),
               Call (GroupMembersRefDelete OFFICE365_E1_GROUP_ID
                       (the (ActivityResponseRequest.entraObjectId r))),
               Call (ListItemFieldsPatch siteId SHAREPOINT_LIST_ID (the (sharePointItemId r))
                       [(''supplierdb_SendToEntra'', JBool False),
                        (''supplierdb_ActivityCheckStatus'', JStr ''License Removed - User Declined''),
                        (''supplierdb_LicenseRemovedDate'', JStr now)]),
               Call (SendMail SERVICE_ACCOUNT_EMAIL
                       \<lparr>mail_message.subject =
                          ''Freelancer Account Deactivated - '' @ interpolate (supplierName r),
                        contentType = ''HTML'',
                        content = ManagerTemplate (supplierName r) (the (supplierEmail r)),
                        sender = None,
                        toRecipients = [(the (requestedByEmail r), None)],
                        ccRecipients = [''OnBoard-Talent@egg-events.com''],
                        bccRecipients = [''dl_freelanceonboarding@egg-events.com''],
                        importance = Some ''High''\<rparr> False),
               ErrorLog ''Error sending manager notification:'']))"
  using assms by (auto simp: activity_defs io_defs Let_def)

lemma reset_send_failure:
  assumes "truthy (ResetPasswordRequest.userPrincipalName r) \<or> truthy (userId r)"
    and "truthy (ResetPasswordRequest.firstName r)"
    and "truthy (ResetPasswordRequest.lastName r)"
    and "truthy (personalEmail r)"
    and "users_get g (if truthy (ResetPasswordRequest.userPrincipalName r)
                      then the (ResetPasswordRequest.userPrincipalName r) else the (userId r)) w
           = (Inr user, wa)"
    and "password_patch g (id_u user) (generateSecurePassword array_sort rnd) wa = (Inr (), wb)"
    and "sendMail_post g SERVICE_ACCOUNT_EMAIL
           \<lparr>mail_message.subject = ''Your EGG Events Password Has Been Reset'',
            contentType = ''HTML'',
            content = PasswordResetTemplate (ResetPasswordRequest.firstName r)
                        (entra_user.userPrincipalName user) (generateSecurePassword array_sort rnd),
            sender = None,
            toRecipients =
              [(the (personalEmail r),
                Some (interpolate (ResetPasswordRequest.firstName r) @ '' '' @
                      interpolate (ResetPasswordRequest.lastName r)))],
            ccRecipients = [],
            bccRecipients = [],
            importance = None\<rparr> False wb = (Inl e, wc)"
  shows "resetFreelancerPassword g now array_sort rnd (Inr r) (w, tr) =
           (Inr (resetFreelancerPassword_catch now e),
            (wc, tr @
              [Call (UsersGetSelect (if truthy (ResetPasswordRequest.userPrincipalName r)
                                     then the (ResetPasswordRequest.userPrincipalName r)
                                     else the (userId r))),
               Call (UserPasswordPatch (id_u user) (generateSecurePassword array_sort rnd)),
               Call (SendMail SERVICE_ACCOUNT_EMAIL
                       \<lparr>mail_message.subject = ''Your EGG Events Password Has Been Reset'',
                        contentType = ''HTML'',
                        content = PasswordResetTemplate (ResetPasswordRequest.firstName r)
                                    (entra_user.userPrincipalName user)
                                    (generateSecurePassword array_sort rnd),
                        sender = None,
                        toRecipients =
                          [(the (personalEmail r),
                            Some (interpolate (ResetPasswordRequest.firstName r) @ '' '' @
                                  interpolate (ResetPasswordRequest.lastName r)))],
                        ccRecipients = [],
                        bccRecipients = [],
                        importance = None\<rparr> False)]))"
  using assms
  by (auto simp: resetFreelancerPassword_def sendPasswordResetEmail_def io_defs Let_def)

text \<open>
  C2, as the claim has it, at a directory whose mail service is down: the password reset
  for Alice finds her, patches her password (the second call), fails to send the mail,
  and answers 500 with \<^verbatim>\<open>success: false\<close>.
\<close>

theorem reset_send_failure_counterexample:
  "fst (resetFreelancerPassword memory_graph a_moment insertion_sort (\<lambda>n. n) (Inr reset_alice)
          (no_mail_directory, [])) =
     Inr \<lparr>status = 500,
          jsonBody = [(''success'', JBool False),
                      (''error'', JStr ''An unexpected error occurred while resetting the password.''),
                      (''details'', JStr ''Mailbox unavailable''),
                      (''timestamp'', JStr a_moment)]\<rparr> \<and>
   calls_of (snd (snd (resetFreelancerPassword memory_graph a_moment insertion_sort (\<lambda>n. n)
                         (Inr reset_alice) (no_mail_directory, [])))) ! 1 =
     UserPasswordPatch ''7f1c'' (generateSecurePassword insertion_sort (\<lambda>n. n))"
  by (simp add: resetFreelancerPassword_def sendPasswordResetEmail_def io_defs Let_def
        resetFreelancerPassword_catch_def memory_graph_def no_mail_directory_def reset_alice_def
        alice_def mail_down_def graph_error_def truthy_def or_else_def)


text \<open>
  C2, amended. In the activity-response handler, when the confirmation mail (response
  "yes", after the record patch) or the manager notification (response "no" with a
  manager to notify, after the group removal and the record patch) is refused, the
  handler writes the failure to the error log as the last event of the invocation and
  still answers with the 200 success of that branch. In the password-reset handler the
  send has no handler of its own: when the reset mail is refused after the password
  patch, nothing is logged with \<^verbatim>\<open>context.error\<close>, the error reaches the outer
  \<^verbatim>\<open>catch\<close>, and the response is the failure response for that error. In each case
  the hypothesis is the refusal of the one message that the handler sends, and the
  conclusion gives the response, the state of the service and all the events.
\<close>

theorem notification_failure_after_mutation:
  "(truthy (ActivityResponseRequest.response ra) \<and>
    truthy (supplierEmail ra) \<and>
    truthy (ActivityResponseRequest.entraObjectId ra) \<and>
    truthy (sharePointItemId ra) \<and>
    toLowerCase (the (ActivityResponseRequest.response ra)) = ''yes'' \<and>
    sites_get g ''egginthenest.sharepoint.com'' ''/sites/INTRANET'' w = (Inr siteId, wa) \<and>
    fields_patch g siteId SHAREPOINT_LIST_ID (the (sharePointItemId ra))
             [(''supplierdb_LastActivityCheck'', JStr now),
              (''supplierdb_ActivityReminderCount'', JNum 0),
              (''supplierdb_ActivityCheckStatus'', JStr ''Active'')] wa = (Inr (), wb) \<and>
    sendMail_post g SERVICE_ACCOUNT_EMAIL
           \<lparr>mail_message.subject = ''Thank you - Activity Confirmed'',
            contentType = ''HTML'',
            content = ConfirmationTemplate (ActivityResponseRequest.firstName ra),
            sender = None,
            toRecipients = [(the (supplierEmail ra), None)],
            ccRecipients = [],
            bccRecipients = [],
            importance = None\<rparr> False wb = (Inl e, wc)
    \<longrightarrow>
    handleActivityResponse g now (Inr ra) (w, tr) =
           (Inr \<lparr>status = 200,
                 jsonBody = [(''success'', JBool True),
                             (''action'', JStr ''activity_confirmed''),
                             (''message'', JStr ''Activity confirmed and SharePoint updated''),
                             (''timestamp'', JStr now)]\<rparr>,
            (wc, tr @
              [Call (SitesGet ''egginthenest.sharepoint.com'' ''/sites/INTRANET''),
               Call (ListItemFieldsPatch siteId SHAREPOINT_LIST_ID (the (sharePointItemId ra))
                       [(''supplierdb_LastActivityCheck'', JStr now),
                        (''supplierdb_ActivityReminderCount'', JNum 0),
                        (''supplierdb_ActivityCheckStatus'', JStr ''Active'')]),
               Call (SendMail SERVICE_ACCOUNT_EMAIL
                       \<lparr>mail_message.subject = ''Thank you - Activity Confirmed'',
                        contentType = ''HTML'',
                        content = ConfirmationTemplate (ActivityResponseRequest.firstName ra),
                        sender = None,
                        toRecipients = [(the (supplierEmail ra), None)],
                        ccRecipients = [],
                        bccRecipients = [],
                        importance = None\<rparr> False),
               ErrorLog ''Error sending confirmation email:'']))) \<and>
   (truthy (ActivityResponseRequest.response rb) \<and>
    truthy (supplierEmail rb) \<and>
    truthy (ActivityResponseRequest.entraObjectId rb) \<and>
    truthy (sharePointItemId rb) \<and>
    toLowerCase (the (ActivityResponseRequest.response rb)) = ''no'' \<and>
    truthy (requestedByEmail rb) \<and>
    sites_get g ''egginthenest.sharepoint.com'' ''/sites/INTRANET'' w = (Inr siteId, wa) \<and>
    members_ref_delete g OFFICE365_E1_GROUP_ID (the (ActivityResponseRequest.entraObjectId rb)) wa
            = (removed, wb) \<and>
    (removed = Inr () \<or> (\<exists>e'. removed = Inl e' \<and> statusCode e' = Some 404)) \<and>
    fields_patch g siteId SHAREPOINT_LIST_ID (the (sharePointItemId rb))
             [(''supplierdb_SendToEntra'', JBool False),
              (''supplierdb_ActivityCheckStatus'', JStr ''License Removed - User Declined''),
              (''supplierdb_LicenseRemovedDate'', JStr now)] wb = (Inr (), wc) \<and>
    sendMail_post g SERVICE_ACCOUNT_EMAIL
           \<lparr>mail_message.subject = ''Freelancer Account Deactivated - '' @ interpolate (supplierName rb),
            contentType = ''HTML'',
            content = ManagerTemplate (supplierName rb) (the (supplierEmail rb)),
            sender = None,
            toRecipients = [(the (requestedByEmail rb), None)],
            ccRecipients = [''OnBoard-Talent@egg-events.com''],
            bccRecipients = [''dl_freelanceonboarding@egg-events.com''],
            importance = Some ''High''\<rparr> False wc = (Inl e, wd)
    \<longrightarrow>
    handleActivityResponse g now (Inr rb) (w, tr) =
           (Inr \<lparr>status = 200,
                 jsonBody = [(''success'', JBool True),
                             (''action'', JStr ''license_removed''),
                             (''message'', JStr ''License removed and manager notified''),
                             (''timestamp'', JStr now)]\<rparr>,
            (wd, tr @
              [Call (SitesGet ''egginthenest.sharepoint.com'' ''/sites/INTRANET''),
               Call (GroupMembersRefDelete OFFICE365_E1_GROUP_ID
                       (the (ActivityResponseRequest.entraObjectId rb))),
               Call (ListItemFieldsPatch siteId SHAREPOINT_LIST_ID (the (sharePointItemId rb))
                       [(''supplierdb_SendToEntra'', JBool False),
                        (''supplierdb_ActivityCheckStatus'', JStr ''License Removed - User Declined''),
                        (''supplierdb_LicenseRemovedDate'', JStr now)]),
               Call (SendMail SERVICE_ACCOUNT_EMAIL
                       \<lparr>mail_message.subject =
                          ''Freelancer Account Deactivated - '' @ interpolate (supplierName rb),
                        contentType = ''HTML'',
                        content = ManagerTemplate (supplierName rb) (the (supplierEmail rb)),
                        sender = None,
                        toRecipients = [(the (requestedByEmail rb), None)],
                        ccRecipients = [''OnBoard-Talent@egg-events.com''],
                        bccRecipients = [''dl_freelanceonboarding@egg-events.com''],
                        importance = Some ''High''\<rparr> False),
               ErrorLog ''Error sending manager notification:'']))) \<and>
   ((truthy (ResetPasswordRequest.userPrincipalName rp) \<or> truthy (userId rp)) \<and>
    truthy (ResetPasswordRequest.firstName rp) \<and>
    truthy (ResetPasswordRequest.lastName rp) \<and>
    truthy (personalEmail rp) \<and>
    users_get g (if truthy (ResetPasswordRequest.userPrincipalName rp)
                      then the (ResetPasswordRequest.userPrincipalName rp) else the (userId rp)) w
           = (Inr user, wa) \<and>
    password_patch g (id_u user) (generateSecurePassword array_sort rnd) wa = (Inr (), wb) \<and>
    sendMail_post g SERVICE_ACCOUNT_EMAIL
           \<lparr>mail_message.subject = ''Your EGG Events Password Has Been Reset'',
            contentType = ''HTML'',
            content = PasswordResetTemplate (ResetPasswordRequest.firstName rp)
                        (entra_user.userPrincipalName user) (generateSecurePassword array_sort rnd),
            sender = None,
            toRecipients =
              [(the (personalEmail rp),
                Some (interpolate (ResetPasswordRequest.firstName rp) @ '' '' @
                      interpolate (ResetPasswordRequest.lastName rp)))],
            ccRecipients = [],
            bccRecipients = [],
            importance = None\<rparr> False wb = (Inl e, wc)
    \<longrightarrow>
    resetFreelancerPassword g now array_sort rnd (Inr rp) (w, tr) =
           (Inr (resetFreelancerPassword_catch now e),
            (wc, tr @
              [Call (UsersGetSelect (if truthy (ResetPasswordRequest.userPrincipalName rp)
                                     then the (ResetPasswordRequest.userPrincipalName rp)
                                     else the (userId rp))),
               Call (UserPasswordPatch (id_u user) (generateSecurePassword array_sort rnd)),
               Call (SendMail SERVICE_ACCOUNT_EMAIL
                       \<lparr>mail_message.subject = ''Your EGG Events Password Has Been Reset'',
                        contentType = ''HTML'',
                        content = PasswordResetTemplate (ResetPasswordRequest.firstName rp)
                                    (entra_user.userPrincipalName user)
                                    (generateSecurePassword array_sort rnd),
                        sender = None,
                        toRecipients =
                          [(the (personalEmail rp),
                            Some (interpolate (ResetPasswordRequest.firstName rp) @ '' '' @
                                  interpolate (ResetPasswordRequest.lastName rp)))],
                        ccRecipients = [],
                        bccRecipients = [],
                        importance = None\<rparr> False)])) \<and>
    status (resetFreelancerPassword_catch now e) \<in> {401, 403, 404, 429, 500} \<and>
    map_of (jsonBody (resetFreelancerPassword_catch now e)) ''success'' = Some (JBool False))"
proof -
  have A: "truthy (ActivityResponseRequest.response ra) \<and>
    truthy (supplierEmail ra) \<and>
    truthy (ActivityResponseRequest.entraObjectId ra) \<and>
    truthy (sharePointItemId ra) \<and>
    toLowerCase (the (ActivityResponseRequest.response ra)) = ''yes'' \<and>
    sites_get g ''egginthenest.sharepoint.com'' ''/sites/INTRANET'' w = (Inr siteId, wa) \<and>
    fields_patch g siteId SHAREPOINT_LIST_ID (the (sharePointItemId ra))
             [(''supplierdb_LastActivityCheck'', JStr now),
              (''supplierdb_ActivityReminderCount'', JNum 0),
              (''supplierdb_ActivityCheckStatus'', JStr ''Active'')] wa = (Inr (), wb) \<and>
    sendMail_post g SERVICE_ACCOUNT_EMAIL
           \<lparr>mail_message.subject = ''Thank you - Activity Confirmed'',
            contentType = ''HTML'',
            content = ConfirmationTemplate (ActivityResponseRequest.firstName ra),
            sender = None,
            toRecipients = [(the (supplierEmail ra), None)],
            ccRecipients = [],
            bccRecipients = [],
            importance = None\<rparr> False wb = (Inl e, wc)
    \<longrightarrow>
    handleActivityResponse g now (Inr ra) (w, tr) =
           (Inr \<lparr>status = 200,
                 jsonBody = [(''success'', JBool True),
                             (''action'', JStr ''activity_confirmed''),
                             (''message'', JStr ''Activity confirmed and SharePoint updated''),
                             (''timestamp'', JStr now)]\<rparr>,
            (wc, tr @
              [Call (SitesGet ''egginthenest.sharepoint.com'' ''/sites/INTRANET''),
               Call (ListItemFieldsPatch siteId SHAREPOINT_LIST_ID (the (sharePointItemId ra))
                       [(''supplierdb_LastActivityCheck'', JStr now),
                        (''supplierdb_ActivityReminderCount'', JNum 0),
                        (''supplierdb_ActivityCheckStatus'', JStr ''Active'')]),
               Call (SendMail SERVICE_ACCOUNT_EMAIL
                       \<lparr>mail_message.subject = ''Thank you - Activity Confirmed'',
                        contentType = ''HTML'',
                        content = ConfirmationTemplate (ActivityResponseRequest.firstName ra),
                        sender = None,
                        toRecipients = [(the (supplierEmail ra), None)],
                        ccRecipients = [],
                        bccRecipients = [],
                        importance = None\<rparr> False),
               ErrorLog ''Error sending confirmation email:'']))"
    using activity_yes_send_failure
            [where r = ra and g = g and w = w and wa = wa and wb = wb and wc = wc and e = e
               and siteId = siteId and now = now and tr = tr]
    by simp
  have B: "truthy (ActivityResponseRequest.response rb) \<and>
    truthy (supplierEmail rb) \<and>
    truthy (ActivityResponseRequest.entraObjectId rb) \<and>
    truthy (sharePointItemId rb) \<and>
    toLowerCase (the (ActivityResponseRequest.response rb)) = ''no'' \<and>
    truthy (requestedByEmail rb) \<and>
    sites_get g ''egginthenest.sharepoint.com'' ''/sites/INTRANET'' w = (Inr siteId, wa) \<and>
    members_ref_delete g OFFICE365_E1_GROUP_ID (the (ActivityResponseRequest.entraObjectId rb)) wa
            = (removed, wb) \<and>
    (removed = Inr () \<or> (\<exists>e'. removed = Inl e' \<and> statusCode e' = Some 404)) \<and>
    fields_patch g siteId SHAREPOINT_LIST_ID (the (sharePointItemId rb))
             [(''supplierdb_SendToEntra'', JBool False),
              (''supplierdb_ActivityCheckStatus'', JStr ''License Removed - User Declined''),
              (''supplierdb_LicenseRemovedDate'', JStr now)] wb = (Inr (), wc) \<and>
    sendMail_post g SERVICE_ACCOUNT_EMAIL
           \<lparr>mail_message.subject = ''Freelancer Account Deactivated - '' @ interpolate (supplierName rb),
            contentType = ''HTML'',
            content = ManagerTemplate (supplierName rb) (the (supplierEmail rb)),
            sender = None,
            toRecipients = [(the (requestedByEmail rb), None)],
            ccRecipients = [''OnBoard-Talent@egg-events.com''],
            bccRecipients = [''dl_freelanceonboarding@egg-events.com''],
            importance = Some ''High''\<rparr> False wc = (Inl e, wd)
    \<longrightarrow>
    handleActivityResponse g now (Inr rb) (w, tr) =
           (Inr \<lparr>status = 200,
                 jsonBody = [(''success'', JBool True),
                             (''action'', JStr ''license_removed''),
                             (''message'', JStr ''License removed and manager notified''),
                             (''timestamp'', JStr now)]\<rparr>,
            (wd, tr @
              [Call (SitesGet ''egginthenest.sharepoint.com'' ''/sites/INTRANET''),
               Call (GroupMembersRefDelete OFFICE365_E1_GROUP_ID
                       (the (ActivityResponseRequest.entraObjectId rb))),
               Call (ListItemFieldsPatch siteId SHAREPOINT_LIST_ID (the (sharePointItemId rb))
                       [(''supplierdb_SendToEntra'', JBool False),
                        (''supplierdb_ActivityCheckStatus'', JStr ''License Removed - User Declined''),
                        (''supplierdb_LicenseRemovedDate'', JStr now)]),
               Call (SendMail SERVICE_ACCOUNT_EMAIL
                       \<lparr>mail_message.subject =
                          ''Freelancer Account Deactivated - '' @ interpolate (supplierName rb),
                        contentType = ''HTML'',
                        content = ManagerTemplate (supplierName rb) (the (supplierEmail rb)),
                        sender = None,
                        toRecipients = [(the (requestedByEmail rb), None)],
                        ccRecipients = [''OnBoard-Talent@egg-events.com''],
                        bccRecipients = [''dl_freelanceonboarding@egg-events.com''],
                        importance = Some ''High''\<rparr> False),
               ErrorLog ''Error sending manager notification:'']))"
    using activity_no_send_failure
            [where r = rb and g = g and w = w and wa = wa and wb = wb and wc = wc and wd = wd and e = e
               and siteId = siteId and now = now and tr = tr and removed = removed]
    by simp
  have C: "(truthy (ResetPasswordRequest.userPrincipalName rp) \<or> truthy (userId rp)) \<and>
    truthy (ResetPasswordRequest.firstName rp) \<and>
    truthy (ResetPasswordRequest.lastName rp) \<and>
    truthy (personalEmail rp) \<and>
    users_get g (if truthy (ResetPasswordRequest.userPrincipalName rp)
                      then the (ResetPasswordRequest.userPrincipalName rp) else the (userId rp)) w
           = (Inr user, wa) \<and>
    password_patch g (id_u user) (generateSecurePassword array_sort rnd) wa = (Inr (), wb) \<and>
    sendMail_post g SERVICE_ACCOUNT_EMAIL
           \<lparr>mail_message.subject = ''Your EGG Events Password Has Been Reset'',
            contentType = ''HTML'',
            content = PasswordResetTemplate (ResetPasswordRequest.firstName rp)
                        (entra_user.userPrincipalName user) (generateSecurePassword array_sort rnd),
            sender = None,
            toRecipients =
              [(the (personalEmail rp),
                Some (interpolate (ResetPasswordRequest.firstName rp) @ '' '' @
                      interpolate (ResetPasswordRequest.lastName rp)))],
            ccRecipients = [],
            bccRecipients = [],
            importance = None\<rparr> False wb = (Inl e, wc)
    \<longrightarrow>
    resetFreelancerPassword g now array_sort rnd (Inr rp) (w, tr) =
           (Inr (resetFreelancerPassword_catch now e),
            (wc, tr @
              [Call (UsersGetSelect (if truthy (ResetPasswordRequest.userPrincipalName rp)
                                     then the (ResetPasswordRequest.userPrincipalName rp)
                                     else the (userId rp))),
               Call (UserPasswordPatch (id_u user) (generateSecurePassword array_sort rnd)),
               Call (SendMail SERVICE_ACCOUNT_EMAIL
                       \<lparr>mail_message.subject = ''Your EGG Events Password Has Been Reset'',
                        contentType = ''HTML'',
                        content = PasswordResetTemplate (ResetPasswordRequest.firstName rp)
                                    (entra_user.userPrincipalName user)
                                    (generateSecurePassword array_sort rnd),
                        sender = None,
                        toRecipients =
                          [(the (personalEmail rp),
                            Some (interpolate (ResetPasswordRequest.firstName rp) @ '' '' @
                                  interpolate (ResetPasswordRequest.lastName rp)))],
                        ccRecipients = [],
                        bccRecipients = [],
                        importance = None\<rparr> False)])) \<and>
    status (resetFreelancerPassword_catch now e) \<in> {401, 403, 404, 429, 500} \<and>
    map_of (jsonBody (resetFreelancerPassword_catch now e)) ''success'' = Some (JBool False)"
    using reset_send_failure
            [where r = rp and g = g and w = w and wa = wa and wb = wb and wc = wc and e = e
               and user = user and now = now and tr = tr and array_sort = array_sort and rnd = rnd]
          reset_catch_is_failure [where now = now and e = e]
    by simp
  show ?thesis
    by (intro conjI A B C)
qed

theorem notification_failure_after_mutation_witness:
  "fst (handleActivityResponse memory_graph a_moment (Inr confirm) (no_mail_directory, [])) =
     Inr \<lparr>status = 200,
          jsonBody = [(''success'', JBool True),
                      (''action'', JStr ''activity_confirmed''),
                      (''message'', JStr ''Activity confirmed and SharePoint updated''),
                      (''timestamp'', JStr a_moment)]\<rparr> \<and>
   last (snd (snd (handleActivityResponse memory_graph a_moment (Inr confirm) (no_mail_directory, [])))) =
     ErrorLog ''Error sending confirmation email:'' \<and>
   fst (handleActivityResponse memory_graph a_moment (Inr decline_notify) (no_mail_directory, [])) =
     Inr \<lparr>status = 200,
          jsonBody = [(''success'', JBool True),
                      (''action'', JStr ''license_removed''),
                      (''message'', JStr ''License removed and manager notified''),
                      (''timestamp'', JStr a_moment)]\<rparr> \<and>
   last (snd (snd (handleActivityResponse memory_graph a_moment (Inr decline_notify)
                     (no_mail_directory, [])))) =
     ErrorLog ''Error sending manager notification:'' \<and>
   fst (resetFreelancerPassword memory_graph a_moment insertion_sort (\<lambda>n. n) (Inr reset_alice)
          (no_mail_directory, [])) =
     Inr (resetFreelancerPassword_catch a_moment mail_down)"
proof -
  have fa: "truthy (ActivityResponseRequest.response confirm)" "truthy (supplierEmail confirm)"
    "truthy (ActivityResponseRequest.entraObjectId confirm)" "truthy (sharePointItemId confirm)"
    "toLowerCase (the (ActivityResponseRequest.response confirm)) = ''yes''"
    by (simp_all add: confirm_def truthy_def toLowerCase_def toLowerCase_char_def)
  have fb: "truthy (ActivityResponseRequest.response decline_notify)" "truthy (supplierEmail decline_notify)"
    "truthy (ActivityResponseRequest.entraObjectId decline_notify)"
    "truthy (sharePointItemId decline_notify)"
    "toLowerCase (the (ActivityResponseRequest.response decline_notify)) = ''no''"
    "truthy (requestedByEmail decline_notify)"
    by (simp_all add: decline_notify_def decline_def truthy_def toLowerCase_def toLowerCase_char_def)
  have fp: "truthy (ResetPasswordRequest.userPrincipalName reset_alice) \<or> truthy (userId reset_alice)"
    "truthy (ResetPasswordRequest.firstName reset_alice)" "truthy (ResetPasswordRequest.lastName reset_alice)"
    "truthy (personalEmail reset_alice)"
    by (simp_all add: reset_alice_def truthy_def)
  have s: "sites_get memory_graph ''egginthenest.sharepoint.com'' ''/sites/INTRANET'' no_mail_directory =
      (Inr ''site-1'', no_mail_directory)"
    by (simp add: memory_graph_def)
  have p: "fields_patch memory_graph ''site-1'' SHAREPOINT_LIST_ID item fs no_mail_directory =
      (Inr (), no_mail_directory)" for item fs
    by (simp add: memory_graph_def)
  have d: "members_ref_delete memory_graph OFFICE365_E1_GROUP_ID
             (the (ActivityResponseRequest.entraObjectId decline_notify)) no_mail_directory =
      (Inl (graph_error 404 ''Request_ResourceNotFound'' ''Resource does not exist''), no_mail_directory)"
    by (simp add: memory_graph_def no_mail_directory_def)
  have e: "Inl (graph_error 404 ''Request_ResourceNotFound'' ''Resource does not exist'') = Inr () \<or>
       (\<exists>e'. Inl (graph_error 404 ''Request_ResourceNotFound'' ''Resource does not exist'')
                = (Inl e' :: gerror + unit) \<and> statusCode e' = Some 404)"
    by (simp add: graph_error_def)
  have u: "users_get memory_graph
             (if truthy (ResetPasswordRequest.userPrincipalName reset_alice)
              then the (ResetPasswordRequest.userPrincipalName reset_alice) else the (userId reset_alice))
             no_mail_directory = (Inr alice, no_mail_directory)"
    by (simp add: memory_graph_def no_mail_directory_def reset_alice_def alice_def truthy_def)
  have pp: "password_patch memory_graph (id_u alice) pw no_mail_directory = (Inr (), no_mail_directory)" for pw
    by (simp add: memory_graph_def)
  have m: "sendMail_post memory_graph from_user msg save no_mail_directory
      = (Inl mail_down, no_mail_directory)" for from_user msg save
    by (simp add: memory_graph_def no_mail_directory_def)
  from notification_failure_after_mutation
         [where g = memory_graph and now = a_moment and ra = confirm and rb = decline_notify
            and rp = reset_alice and w = no_mail_directory and wa = no_mail_directory
            and wb = no_mail_directory and wc = no_mail_directory and wd = no_mail_directory
            and siteId = "''site-1''" and e = mail_down and tr = "[]" and user = alice
            and array_sort = insertion_sort and rnd = "\<lambda>n. n"
            and removed = "Inl (graph_error 404 ''Request_ResourceNotFound'' ''Resource does not exist'')"]
       fa fb fp s p d e u pp m
  show ?thesis by simp
qed

section \<open>The sanitizer\<close>

text \<open>
  C8. The three examples: the script block is removed and "Hello" is left; the anchor
  keeps its tag and its \<^verbatim>\<open>href\<close> loses the \<^verbatim>\<open>javascript:\<close> scheme; the image with a
  data URI comes back unchanged. (\<open>CHR 0x22\<close> is the double quote.)
\<close>

theorem sanitizeHtml_examples:
  "sanitizeHtml ''<script>alert(1)</script>Hello'' = ''Hello'' \<and>
   sanitizeHtml (''<a href='' @ [CHR 0x22] @ ''javascript:evil()'' @ [CHR 0x22] @ ''>x</a>'') =
     ''<a href='' @ [CHR 0x22] @ ''evil()'' @ [CHR 0x22] @ ''>x</a>'' \<and>
   sanitizeHtml (''<img src='' @ [CHR 0x22] @ ''data:image/png;base64,AAA'' @ [CHR 0x22] @ ''>'') =
     ''<img src='' @ [CHR 0x22] @ ''data:image/png;base64,AAA'' @ [CHR 0x22] @ ''>''"
  by code_simp


section \<open>The generated password\<close>

lemma fill_password_shape:
  "fill_password rnd chars len k i password = (password', k') \<Longrightarrow> chars \<noteq> [] \<Longrightarrow> i \<le> len \<Longrightarrow>
   length password' = length password + (len - i) \<and>
   set password \<subseteq> set password' \<and> set password' \<subseteq> set password \<union> set chars"
proof (induction rnd chars len k i password rule: fill_password.induct)
  case (1 rnd chars len k i password)
  show ?case
  proof (cases "i < len")
    case True
    let ?c = "chars ! randomInt rnd k (length chars)"
    have c: "?c \<in> set chars"
      using "1.prems"(2) by (simp add: randomInt_def)
    have step: "fill_password rnd chars len (Suc k) (Suc i) (password @ [?c]) = (password', k')"
      using "1.prems"(1) True by (subst (asm) fill_password.simps) simp
    have "length password' = length (password @ [?c]) + (len - Suc i) \<and>
          set (password @ [?c]) \<subseteq> set password' \<and>
          set password' \<subseteq> set (password @ [?c]) \<union> set chars"
      using "1.IH" [OF True step "1.prems"(2)] True by simp
    with c True show ?thesis by auto
  next
    case False
    with "1.prems"(1) have "password' = password"
      by (subst (asm) fill_password.simps) simp
    with False "1.prems"(3) show ?thesis by simp
  qed
qed

lemma mset_insert_by: "mset (fst (insert_by cmp n x ys)) = add_mset x (mset ys)"
proof (induction ys arbitrary: n)
  case Nil
  show ?case by simp
next
  case (Cons y ys)
  obtain zs n' where r: "insert_by cmp (Suc n) x ys = (zs, n')"
    by (cases "insert_by cmp (Suc n) x ys")
  have "mset zs = add_mset x (mset ys)"
    using Cons [of "Suc n"] r by simp
  then show ?case
    using r by simp
qed

lemma mset_insertion_sort_by: "mset (fst (insertion_sort_by cmp n xs)) = mset xs"
proof (induction xs arbitrary: n)
  case Nil
  show ?case by simp
next
  case (Cons x xs)
  obtain ys n' where r: "insertion_sort_by cmp n xs = (ys, n')"
    by (cases "insertion_sort_by cmp n xs")
  have "mset ys = mset xs"
    using Cons [of n] r by simp
  then show ?case
    using r mset_insert_by [of cmp n' x ys] by simp
qed

lemma mset_insertion_sort: "mset (insertion_sort cmp xs) = mset xs"
  by (simp add: insertion_sort_def mset_insertion_sort_by)

lemma drawn_in_class: "cs \<noteq> [] \<Longrightarrow> cs ! randomInt rnd k (length cs) \<in> set cs"
  by (simp add: randomInt_def)

lemma classes_nonempty:
  "uppercase \<noteq> []" "lowercase \<noteq> []" "numbers \<noteq> []" "symbols \<noteq> []" "allChars \<noteq> []"
  by (simp_all add: uppercase_def lowercase_def numbers_def symbols_def allChars_def)

lemma set_allChars: "set allChars = set uppercase \<union> set lowercase \<union> set numbers \<union> set symbols"
  by (simp add: allChars_def Un_assoc)


text \<open>
  C9. For every sequence of random draws, and every engine sort that returns a
  permutation of its input, \<^verbatim>\<open>generateSecurePassword\<close> returns 16 characters, all of
  them from the four classes, with at least one upper-case letter, one lower-case
  letter, one digit and one symbol.
\<close>

theorem generateSecurePassword_shape:
  assumes "\<And>cmp xs. mset (array_sort cmp xs) = mset xs"
  shows "length (generateSecurePassword array_sort rnd) = 16 \<and>
         set (generateSecurePassword array_sort rnd) \<subseteq>
           set uppercase \<union> set lowercase \<union> set numbers \<union> set symbols \<and>
         (\<exists>c \<in> set (generateSecurePassword array_sort rnd). c \<in> set uppercase) \<and>
         (\<exists>c \<in> set (generateSecurePassword array_sort rnd). c \<in> set lowercase) \<and>
         (\<exists>c \<in> set (generateSecurePassword array_sort rnd). c \<in> set numbers) \<and>
         (\<exists>c \<in> set (generateSecurePassword array_sort rnd). c \<in> set symbols)"
proof -
  let ?u = "uppercase ! randomInt rnd 0 (length uppercase)"
  let ?l = "lowercase ! randomInt rnd 1 (length lowercase)"
  let ?d = "numbers ! randomInt rnd 2 (length numbers)"
  let ?s = "symbols ! randomInt rnd 3 (length symbols)"
  obtain filled k where f: "fill_password rnd allChars 16 4 4 [?u, ?l, ?d, ?s] = (filled, k)"
    by (cases "fill_password rnd allChars 16 4 4 [?u, ?l, ?d, ?s]")
  have g: "generateSecurePassword array_sort rnd =
             array_sort (\<lambda>n. int (randomInt rnd (k + n) 3) - 1) filled"
  proof -
    have pw: "[] @ [?u] @ [?l] @ [?d] @ [?s] = [?u, ?l, ?d, ?s]" by simp
    have n: "length [?u, ?l, ?d, ?s] = 4" by simp
    show ?thesis
      unfolding generateSecurePassword_def Let_def pw n f by simp
  qed
  have u: "?u \<in> set uppercase" by (rule drawn_in_class) (rule classes_nonempty)
  have l: "?l \<in> set lowercase" by (rule drawn_in_class) (rule classes_nonempty)
  have d: "?d \<in> set numbers" by (rule drawn_in_class) (rule classes_nonempty)
  have s: "?s \<in> set symbols" by (rule drawn_in_class) (rule classes_nonempty)
  have shape: "length filled = length [?u, ?l, ?d, ?s] + (16 - 4) \<and> set [?u, ?l, ?d, ?s] \<subseteq> set filled \<and>
      set filled \<subseteq> set [?u, ?l, ?d, ?s] \<union> set allChars"
    by (rule fill_password_shape [OF f]) (simp_all add: classes_nonempty)
  have same: "mset (generateSecurePassword array_sort rnd) = mset filled"
    by (simp add: g assms)
  have len: "length (generateSecurePassword array_sort rnd) = length filled"
    using same by (rule mset_eq_length)
  have elems: "set (generateSecurePassword array_sort rnd) = set filled"
    using same by (rule mset_eq_setD)
  have "length (generateSecurePassword array_sort rnd) = 16"
    using shape len by simp
  moreover have "set filled \<subseteq> set uppercase \<union> set lowercase \<union> set numbers \<union> set symbols"
    using shape u l d s by (auto simp: set_allChars)
  moreover have "?u \<in> set filled" "?l \<in> set filled" "?d \<in> set filled" "?s \<in> set filled"
    using shape by simp_all
  ultimately show ?thesis
    using u l d s elems by blast
qed

theorem generateSecurePassword_shape_witness:
  "(\<forall>cmp xs. mset (insertion_sort cmp xs) = mset (xs :: string)) \<and>
   length (generateSecurePassword insertion_sort (\<lambda>n. n)) = 16 \<and>
   set (generateSecurePassword insertion_sort (\<lambda>n. n)) \<subseteq>
     set uppercase \<union> set lowercase \<union> set numbers \<union> set symbols \<and>
   (\<exists>c \<in> set (generateSecurePassword insertion_sort (\<lambda>n. n)). c \<in> set uppercase) \<and>
   (\<exists>c \<in> set (generateSecurePassword insertion_sort (\<lambda>n. n)). c \<in> set lowercase) \<and>
   (\<exists>c \<in> set (generateSecurePassword insertion_sort (\<lambda>n. n)). c \<in> set numbers) \<and>
   (\<exists>c \<in> set (generateSecurePassword insertion_sort (\<lambda>n. n)). c \<in> set symbols)"
  using generateSecurePassword_shape [of insertion_sort "\<lambda>n. n"] mset_insertion_sort
  by blast

section \<open>Validation comes before the first call\<close>






section \<open>From a caught error to a status\<close>

lemma catch_status:
  "status (manageLicense_catch now e) = spec_error_status (statusCode e)"
  "status (sendEmail_catch now e) = spec_error_status (statusCode e)"
  "statusCode e \<noteq> Some 429 \<Longrightarrow> status (manageLicense_v1_catch now e) = spec_error_status (statusCode e)"
  "status (resetFreelancerPassword_catch now e) =
     (if code e = Some ''Request_ResourceNotFound'' then 404
      else if statusCode e = Some 401 \<or> code e = Some ''InvalidAuthenticationToken'' then 401
      else if statusCode e = Some 403 then 403
      else if statusCode e = Some 429 then 429
      else 500)"
  by (simp_all add: manageLicense_catch_def sendEmail_catch_def manageLicense_v1_catch_def
        resetFreelancerPassword_catch_def spec_error_status_def Let_def)

lemma catch_body:
  "map_of (jsonBody (manageLicense_catch now e)) ''success'' = Some (JBool False) \<and>
   map_of (jsonBody (manageLicense_catch now e)) ''error'' \<noteq> None \<and>
   map_of (jsonBody (manageLicense_catch now e)) ''details'' =
     Some (JStr (or_else (message e) ''Unknown error occurred'')) \<and>
   map_of (jsonBody (manageLicense_catch now e)) ''timestamp'' = Some (JStr now)"
  "map_of (jsonBody (sendEmail_catch now e)) ''success'' = Some (JBool False) \<and>
   map_of (jsonBody (sendEmail_catch now e)) ''error'' \<noteq> None \<and>
   map_of (jsonBody (sendEmail_catch now e)) ''details'' =
     Some (JStr (or_else (message e) ''Unknown error occurred'')) \<and>
   map_of (jsonBody (sendEmail_catch now e)) ''timestamp'' = Some (JStr now)"
  "map_of (jsonBody (manageLicense_v1_catch now e)) ''success'' = Some (JBool False) \<and>
   map_of (jsonBody (manageLicense_v1_catch now e)) ''error'' \<noteq> None \<and>
   map_of (jsonBody (manageLicense_v1_catch now e)) ''details'' =
     Some (JStr (or_else (message e) ''Unknown error occurred'')) \<and>
   map_of (jsonBody (manageLicense_v1_catch now e)) ''timestamp'' = Some (JStr now)"
  "map_of (jsonBody (resetFreelancerPassword_catch now e)) ''success'' = Some (JBool False) \<and>
   map_of (jsonBody (resetFreelancerPassword_catch now e)) ''error'' \<noteq> None \<and>
   map_of (jsonBody (resetFreelancerPassword_catch now e)) ''details'' =
     Some (JStr (or_else (message e) ''Unknown error'')) \<and>
   map_of (jsonBody (resetFreelancerPassword_catch now e)) ''timestamp'' = Some (JStr now)"
  by (simp_all add: manageLicense_catch_def sendEmail_catch_def manageLicense_v1_catch_def
        resetFreelancerPassword_catch_def Let_def split: prod.splits)

lemma license_search_fails:
  assumes "truthy (userEmail r)" "truthy (LicenseRequest.firstName r)" "truthy (LicenseRequest.lastName r)"
    "isActive r \<noteq> Undefined" "\<not> truthy (LicenseRequest.entraObjectId r)" "\<not> truthy (entraUPN r)"
    "users_filter g (the (userEmail r)) w = (Inl e, w')"
  shows "fst (manageLicense g now (Inr r) (w, tr)) = Inr (manageLicense_catch now e)"
    and "fst (manageLicense_v1 g now (Some r) (w, tr)) = Inr (manageLicense_v1_catch now e)"
  using assms by (auto simp: manageLicense_def manageLicense_v1_def findOrCreateUser_def
      findOrCreateUser_v1_def io_defs)

lemma send_fails:
  assumes "recipients r \<noteq> None" "the (recipients r) \<noteq> []" "length (the (recipients r)) \<le> 50"
    "truthy (EmailRequest.subject r)" "truthy (body r)" "truthy (from_addr r)"
    "\<And>m save. sendMail_post g (the (from_addr r)) m save w = (Inl e, w')"
  shows "fst (sendEmail g now (Some r) (w, tr)) = Inr (sendEmail_catch now e)"
  using assms by (auto simp: sendEmail_def io_defs Let_def)

lemma reset_lookup_fails:
  assumes "truthy (ResetPasswordRequest.userPrincipalName r) \<or> truthy (userId r)"
    "truthy (ResetPasswordRequest.firstName r)" "truthy (ResetPasswordRequest.lastName r)"
    "truthy (personalEmail r)"
    "users_get g (if truthy (ResetPasswordRequest.userPrincipalName r)
                  then the (ResetPasswordRequest.userPrincipalName r) else the (userId r)) w = (Inl e, w')"
    "statusCode e \<noteq> Some 404"
  shows "fst (resetFreelancerPassword g now array_sort rnd (Inr r) (w, tr)) =
           Inr (resetFreelancerPassword_catch now e)"
  using assms by (auto simp: resetFreelancerPassword_def io_defs Let_def)


lemma activity_parse_fails:
  "handleActivityResponse g now (Inl e) (w, tr) =
      (Inr \<lparr>status = 500,
              jsonBody = [(''success'', JBool False),
                          (''error'', JStr (or_else (message e) ''Internal server error'')),
                          (''details'', JStr (toString e))]\<rparr>,
       (w, tr @ [ErrorLog ''Error processing activity response:'']))"
  by (simp add: activity_defs io_defs)

lemma activity_site_fails:
  "truthy (ActivityResponseRequest.response r) \<and> truthy (supplierEmail r) \<and>
    truthy (ActivityResponseRequest.entraObjectId r) \<and> truthy (sharePointItemId r) \<and>
    sites_get g ''egginthenest.sharepoint.com'' ''/sites/INTRANET'' w = (Inl e, w')
   \<longrightarrow>
   handleActivityResponse g now (Inr r) (w, tr) =
      (Inr \<lparr>status = 500,
              jsonBody = [(''success'', JBool False),
                          (''error'', JStr (or_else (message e) ''Internal server error'')),
                          (''details'', JStr (toString e))]\<rparr>,
       (w', tr @ [Call (SitesGet ''egginthenest.sharepoint.com'' ''/sites/INTRANET''),
                 ErrorLog ''Error getting SharePoint site ID:'',
                 ErrorLog ''Error processing activity response:'']))"
  by (auto simp: activity_defs io_defs Let_def)

lemma activity_yes_patch_fails:
  "truthy (ActivityResponseRequest.response r) \<and> truthy (supplierEmail r) \<and>
    truthy (ActivityResponseRequest.entraObjectId r) \<and> truthy (sharePointItemId r) \<and>
    toLowerCase (the (ActivityResponseRequest.response r)) = ''yes'' \<and>
    sites_get g ''egginthenest.sharepoint.com'' ''/sites/INTRANET'' w = (Inr siteId, wa) \<and>
    fields_patch g siteId SHAREPOINT_LIST_ID (the (sharePointItemId r))
         [(''supplierdb_LastActivityCheck'', JStr now),
          (''supplierdb_ActivityReminderCount'', JNum 0),
          (''supplierdb_ActivityCheckStatus'', JStr ''Active'')] wa = (Inl e, wb)
   \<longrightarrow>
   handleActivityResponse g now (Inr r) (w, tr) =
      (Inr \<lparr>status = 500,
              jsonBody = [(''success'', JBool False),
                          (''error'', JStr (or_else (message e) ''Internal server error'')),
                          (''details'', JStr (toString e))]\<rparr>,
       (wb, tr @ [Call (SitesGet ''egginthenest.sharepoint.com'' ''/sites/INTRANET''),
                 Call (ListItemFieldsPatch siteId SHAREPOINT_LIST_ID (the (sharePointItemId r))
         [(''supplierdb_LastActivityCheck'', JStr now),
          (''supplierdb_ActivityReminderCount'', JNum 0),
          (''supplierdb_ActivityCheckStatus'', JStr ''Active'')]),
                 ErrorLog ''Error updating SharePoint item:'',
                 ErrorLog ''Error processing activity response:'']))"
  by (auto simp: activity_defs io_defs Let_def)

lemma activity_no_removal_fails:
  "truthy (ActivityResponseRequest.response r) \<and> truthy (supplierEmail r) \<and>
    truthy (ActivityResponseRequest.entraObjectId r) \<and> truthy (sharePointItemId r) \<and>
    toLowerCase (the (ActivityResponseRequest.response r)) = ''no'' \<and>
    sites_get g ''egginthenest.sharepoint.com'' ''/sites/INTRANET'' w = (Inr siteId, wa) \<and>
    members_ref_delete g OFFICE365_E1_GROUP_ID (the (ActivityResponseRequest.entraObjectId r)) wa = (Inl e, wb) \<and>
    statusCode e \<noteq> Some 404
   \<longrightarrow>
   handleActivityResponse g now (Inr r) (w, tr) =
      (Inr \<lparr>status = 500,
              jsonBody = [(''success'', JBool False),
                          (''error'', JStr (or_else (message e) ''Internal server error'')),
                          (''details'', JStr (toString e))]\<rparr>,
       (wb, tr @ [Call (SitesGet ''egginthenest.sharepoint.com'' ''/sites/INTRANET''),
                 Call (GroupMembersRefDelete OFFICE365_E1_GROUP_ID (the (ActivityResponseRequest.entraObjectId r))),
                 ErrorLog ''Error removing user from group:'',
                 ErrorLog ''Error processing activity response:'']))"
  by (auto simp: activity_defs io_defs Let_def)

lemma activity_no_patch_fails:
  "truthy (ActivityResponseRequest.response r) \<and> truthy (supplierEmail r) \<and>
    truthy (ActivityResponseRequest.entraObjectId r) \<and> truthy (sharePointItemId r) \<and>
    toLowerCase (the (ActivityResponseRequest.response r)) = ''no'' \<and>
    sites_get g ''egginthenest.sharepoint.com'' ''/sites/INTRANET'' w = (Inr siteId, wa) \<and>
    members_ref_delete g OFFICE365_E1_GROUP_ID (the (ActivityResponseRequest.entraObjectId r)) wa = (removed, wb) \<and>
    (removed = Inr () \<or> (\<exists>e'. removed = Inl e' \<and> statusCode e' = Some 404)) \<and>
    fields_patch g siteId SHAREPOINT_LIST_ID (the (sharePointItemId r))
         [(''supplierdb_SendToEntra'', JBool False),
          (''supplierdb_ActivityCheckStatus'', JStr ''License Removed - User Declined''),
          (''supplierdb_LicenseRemovedDate'', JStr now)] wb = (Inl e, wc)
   \<longrightarrow>
   handleActivityResponse g now (Inr r) (w, tr) =
      (Inr \<lparr>status = 500,
              jsonBody = [(''success'', JBool False),
                          (''error'', JStr (or_else (message e) ''Internal server error'')),
                          (''details'', JStr (toString e))]\<rparr>,
       (wc, tr @ [Call (SitesGet ''egginthenest.sharepoint.com'' ''/sites/INTRANET''),
                 Call (GroupMembersRefDelete OFFICE365_E1_GROUP_ID (the (ActivityResponseRequest.entraObjectId r))),
                 Call (ListItemFieldsPatch siteId SHAREPOINT_LIST_ID (the (sharePointItemId r))
         [(''supplierdb_SendToEntra'', JBool False),
          (''supplierdb_ActivityCheckStatus'', JStr ''License Removed - User Declined''),
          (''supplierdb_LicenseRemovedDate'', JStr now)]),
                 ErrorLog ''Error updating SharePoint item:'',
                 ErrorLog ''Error processing activity response:'']))"
  by (auto simp: activity_defs io_defs Let_def)

lemma reset_lookup_not_found:
  assumes "truthy (ResetPasswordRequest.userPrincipalName r) \<or> truthy (userId r)"
    "truthy (ResetPasswordRequest.firstName r)" "truthy (ResetPasswordRequest.lastName r)"
    "truthy (personalEmail r)"
    "users_get g (if truthy (ResetPasswordRequest.userPrincipalName r)
                  then the (ResetPasswordRequest.userPrincipalName r) else the (userId r)) w = (Inl e, w')"
    "statusCode e = Some 404"
  shows "fst (resetFreelancerPassword g now array_sort rnd (Inr r) (w, tr)) =
           Inr \<lparr>status = 404,
                jsonBody = [(''success'', JBool False),
                            (''error'', JStr ''User not found''),
                            (''details'', JStr (''No user found with identifier: '' @
                               (if truthy (ResetPasswordRequest.userPrincipalName r)
                                then the (ResetPasswordRequest.userPrincipalName r)
                                else the (userId r)))),
                            (''timestamp'', JStr now)]\<rparr>"
  using assms by (auto simp: resetFreelancerPassword_def io_defs Let_def)

lemma bind_InrD: "bind m f s = (Inr y, s') \<Longrightarrow> \<exists>x t. m s = (Inr x, t) \<and> f x t = (Inr y, s')"
  by (auto simp: bind_def split: prod.splits sum.splits)

lemma ret_InrD: "ret x s = (Inr y, s') \<Longrightarrow> y = x"
  by (simp add: ret_def)

lemma activity_response_shape:
  "\<exists>resp s'. handleActivityResponse g now request (w, tr) = (Inr resp, s') \<and>
     (status resp = 200 \<or> status resp = 400 \<or>
      (\<exists>e'. resp =
         \<lparr>status = 500,
          jsonBody = [(''success'', JBool False),
                      (''error'', JStr (or_else (message e') ''Internal server error'')),
                      (''details'', JStr (toString e'))]\<rparr>))"
  unfolding handleActivityResponse_def try_catch_def
  apply (simp split: prod.split sum.split)
  apply (intro allI impI conjI)
   apply (simp add: bind_def context_error_def ret_def)
   apply blast
  apply (auto dest!: bind_InrD ret_InrD simp: Let_def split: if_splits)
  done


lemma try_catch_InrD:
  "try_catch m h s = (Inr y, s') \<Longrightarrow>
   m s = (Inr y, s') \<or> (\<exists>e t. m s = (Inl e, t) \<and> h e t = (Inr y, s'))"
  by (auto simp: try_catch_def split: prod.splits sum.splits)

lemma manageLicense_response_shape:
  "\<exists>resp s'. manageLicense g now request (w, tr) = (Inr resp, s') \<and>
     (status resp = 200 \<or> status resp = 400 \<or> (\<exists>e'. resp = manageLicense_catch now e'))"
  unfolding manageLicense_def try_catch_def
  apply (simp split: prod.split sum.split)
  apply (intro allI impI conjI)
   apply (simp add: bind_def context_error_def ret_def)
   apply blast
  apply (auto dest!: bind_InrD ret_InrD simp: Let_def throw_def split: if_splits)
  done

lemma manageLicense_v1_response_shape:
  "\<exists>resp s'. manageLicense_v1 g now req_body (w, tr) = (Inr resp, s') \<and>
     (status resp = 200 \<or> status resp = 400 \<or> (\<exists>e'. resp = manageLicense_v1_catch now e'))"
  unfolding manageLicense_v1_def try_catch_def
  apply (simp split: prod.split sum.split)
  apply (intro allI impI conjI)
   apply (simp add: bind_def context_error_def ret_def)
   apply blast
  apply (auto dest!: bind_InrD ret_InrD simp: Let_def throw_def split: if_splits option.splits)
  done

lemma sendEmail_response_shape:
  "\<exists>resp s'. sendEmail g now req_body (w, tr) = (Inr resp, s') \<and>
     (status resp = 200 \<or> status resp = 400 \<or> (\<exists>e'. resp = sendEmail_catch now e'))"
  unfolding sendEmail_def try_catch_def
  apply (simp split: prod.split sum.split)
  apply (intro allI impI conjI)
   apply (simp add: bind_def context_error_def ret_def)
   apply blast
  apply (auto dest!: bind_InrD ret_InrD simp: Let_def throw_def split: if_splits option.splits)
  done

lemma resetFreelancerPassword_response_shape:
  "\<exists>resp s'. resetFreelancerPassword g now array_sort rnd request (w, tr) = (Inr resp, s') \<and>
     (status resp = 200 \<or> status resp = 400 \<or> status resp = 404 \<or>
      (\<exists>e'. resp = resetFreelancerPassword_catch now e'))"
  unfolding resetFreelancerPassword_def
  apply (subst try_catch_def)
  apply (simp split: prod.split sum.split)
  apply (intro allI impI conjI)
   apply (simp add: ret_def)
   apply blast
  apply (auto dest!: bind_InrD ret_InrD try_catch_InrD simp: Let_def throw_def ret_def
           split: if_splits sum.splits)
  done

text \<open>
  C3, as the claim has it, at three handlers. The activity-response handler, when the
  site lookup throws an error with status 401, answers 500, and its body has no
  timestamp. The earlier license handler, when the search throws an error with status
  429, answers 500. The password-reset handler, when the send throws an error with
  status 404 whose code is not \<^verbatim>\<open>Request_ResourceNotFound\<close>, answers 500.
\<close>

theorem error_status_counterexample:
  "fst (handleActivityResponse (failing_graph token_expired) a_moment (Inr decline) ((), [])) =
     Inr \<lparr>status = 500,
          jsonBody = [(''success'', JBool False),
                      (''error'', JStr ''Access token has expired''),
                      (''details'', JStr ''Error: Access token has expired'')]\<rparr> \<and>
   statusCode token_expired = Some 401 \<and>
   spec_error_status (Some 401) = 401 \<and>
   fst (manageLicense_v1 (failing_graph too_many_requests) a_moment (Some license_ab) ((), [])) =
     Inr \<lparr>status = 500,
          jsonBody = [(''success'', JBool False),
                      (''error'', JStr ''Failed to manage license''),
                      (''details'', JStr ''Too many requests''),
                      (''timestamp'', JStr a_moment)]\<rparr> \<and>
   statusCode too_many_requests = Some 429 \<and>
   spec_error_status (Some 429) = 429 \<and>
   fst (resetFreelancerPassword memory_graph a_moment insertion_sort (\<lambda>n. n) (Inr reset_alice)
          (disabled_mailbox_directory, [])) =
     Inr \<lparr>status = 500,
          jsonBody = [(''success'', JBool False),
                      (''error'', JStr ''An unexpected error occurred while resetting the password.''),
                      (''details'', JStr ''The mailbox is inactive''),
                      (''timestamp'', JStr a_moment)]\<rparr> \<and>
   statusCode mailbox_disabled = Some 404 \<and>
   spec_error_status (Some 404) = 404"
  by (simp add: handleActivityResponse_def getSharePointSiteId_def manageLicense_v1_def
        findOrCreateUser_v1_def manageLicense_v1_catch_def io_defs Let_def failing_graph_def
        token_expired_def too_many_requests_def graph_error_def decline_def license_ab_def
        truthy_def or_else_def toString_def spec_error_status_def
        resetFreelancerPassword_def sendPasswordResetEmail_def resetFreelancerPassword_catch_def
        memory_graph_def disabled_mailbox_directory_def mailbox_disabled_def reset_alice_def
        alice_def)

text \<open>
  C3, amended. The \<^verbatim>\<open>catch\<close> blocks of \<^verbatim>\<open>manageLicense\<close> (manageLicense.ts) and of
  the send-mail handler follow the table: 401, 403, 404 and 429 map to themselves, any
  other or missing status to 500, and the body has \<^verbatim>\<open>success: false\<close>, \<^verbatim>\<open>error\<close>,
  \<^verbatim>\<open>details\<close> and \<^verbatim>\<open>timestamp\<close>. The earlier license handler follows the table for
  every status other than 429. The password-reset handler answers a user lookup that
  fails with status 404 by a 404 of its own; its \<^verbatim>\<open>catch\<close> block looks at the error
  code first: code \<^verbatim>\<open>Request_ResourceNotFound\<close> gives 404, then status 401 or code
  \<^verbatim>\<open>InvalidAuthenticationToken\<close> gives 401, then 403 and 429 map to themselves, anything
  else gives 500. The activity-response handler answers every caught error with 500 and a
  body of \<^verbatim>\<open>success: false\<close>, \<^verbatim>\<open>error\<close> and \<^verbatim>\<open>details\<close>: the error of the body that
  cannot be read, of the site lookup, of the record patch in either branch, and of the
  group removal other than a 404. Whatever the request and the service, a response of a
  handler is a 200, a 400 (for the password reset also the 404 of the lookup), or what
  its \<^verbatim>\<open>catch\<close> block makes of some error.
\<close>

theorem error_status_mapping:
  "status (manageLicense_catch now e) = spec_error_status (statusCode e) \<and>
   status (sendEmail_catch now e) = spec_error_status (statusCode e) \<and>
   map_of (jsonBody (manageLicense_catch now e)) ''success'' = Some (JBool False) \<and>
   map_of (jsonBody (manageLicense_catch now e)) ''error'' \<noteq> None \<and>
   map_of (jsonBody (manageLicense_catch now e)) ''details'' =
     Some (JStr (or_else (message e) ''Unknown error occurred'')) \<and>
   map_of (jsonBody (manageLicense_catch now e)) ''timestamp'' = Some (JStr now) \<and>
   map_of (jsonBody (sendEmail_catch now e)) ''success'' = Some (JBool False) \<and>
   map_of (jsonBody (sendEmail_catch now e)) ''error'' \<noteq> None \<and>
   map_of (jsonBody (sendEmail_catch now e)) ''details'' =
     Some (JStr (or_else (message e) ''Unknown error occurred'')) \<and>
   map_of (jsonBody (sendEmail_catch now e)) ''timestamp'' = Some (JStr now) \<and>
   (truthy (userEmail lr) \<and> truthy (LicenseRequest.firstName lr) \<and> truthy (LicenseRequest.lastName lr) \<and>
    isActive lr \<noteq> Undefined \<and> \<not> truthy (LicenseRequest.entraObjectId lr) \<and> \<not> truthy (entraUPN lr) \<and>
    users_filter g (the (userEmail lr)) w = (Inl e, w')
    \<longrightarrow> fst (manageLicense g now (Inr lr) (w, tr)) = Inr (manageLicense_catch now e) \<and>
        fst (manageLicense_v1 g now (Some lr) (w, tr)) = Inr (manageLicense_v1_catch now e)) \<and>
   (recipients er \<noteq> None \<and> the (recipients er) \<noteq> [] \<and> length (the (recipients er)) \<le> 50 \<and>
    truthy (EmailRequest.subject er) \<and> truthy (body er) \<and> truthy (from_addr er) \<and>
    (\<forall>m save. sendMail_post g (the (from_addr er)) m save w = (Inl e, w'))
    \<longrightarrow> fst (sendEmail g now (Some er) (w, tr)) = Inr (sendEmail_catch now e)) \<and>
   handleActivityResponse g now (Inl e) (w, tr) =
      (Inr \<lparr>status = 500,
              jsonBody = [(''success'', JBool False),
                          (''error'', JStr (or_else (message e) ''Internal server error'')),
                          (''details'', JStr (toString e))]\<rparr>,
       (w, tr @ [ErrorLog ''Error processing activity response:''])) \<and>
   (truthy (ActivityResponseRequest.response ar) \<and> truthy (supplierEmail ar) \<and>
    truthy (ActivityResponseRequest.entraObjectId ar) \<and> truthy (sharePointItemId ar) \<and>
    sites_get g ''egginthenest.sharepoint.com'' ''/sites/INTRANET'' w = (Inl e, w')
    \<longrightarrow>
    handleActivityResponse g now (Inr ar) (w, tr) =
      (Inr \<lparr>status = 500,
              jsonBody = [(''success'', JBool False),
                          (''error'', JStr (or_else (message e) ''Internal server error'')),
                          (''details'', JStr (toString e))]\<rparr>,
       (w', tr @ [Call (SitesGet ''egginthenest.sharepoint.com'' ''/sites/INTRANET''),
                 ErrorLog ''Error getting SharePoint site ID:'',
                 ErrorLog ''Error processing activity response:'']))) \<and>
   (truthy (ActivityResponseRequest.response ar) \<and> truthy (supplierEmail ar) \<and>
    truthy (ActivityResponseRequest.entraObjectId ar) \<and> truthy (sharePointItemId ar) \<and>
    toLowerCase (the (ActivityResponseRequest.response ar)) = ''yes'' \<and>
    sites_get g ''egginthenest.sharepoint.com'' ''/sites/INTRANET'' w = (Inr siteId, wa) \<and>
    fields_patch g siteId SHAREPOINT_LIST_ID (the (sharePointItemId ar))
         [(''supplierdb_LastActivityCheck'', JStr now),
          (''supplierdb_ActivityReminderCount'', JNum 0),
          (''supplierdb_ActivityCheckStatus'', JStr ''Active'')] wa = (Inl e, wb)
    \<longrightarrow>
    handleActivityResponse g now (Inr ar) (w, tr) =
      (Inr \<lparr>status = 500,
              jsonBody = [(''success'', JBool False),
                          (''error'', JStr (or_else (message e) ''Internal server error'')),
                          (''details'', JStr (toString e))]\<rparr>,
       (wb, tr @ [Call (SitesGet ''egginthenest.sharepoint.com'' ''/sites/INTRANET''),
                 Call (ListItemFieldsPatch siteId SHAREPOINT_LIST_ID (the (sharePointItemId ar))
         [(''supplierdb_LastActivityCheck'', JStr now),
          (''supplierdb_ActivityReminderCount'', JNum 0),
          (''supplierdb_ActivityCheckStatus'', JStr ''Active'')]),
                 ErrorLog ''Error updating SharePoint item:'',
                 ErrorLog ''Error processing activity response:'']))) \<and>
   (truthy (ActivityResponseRequest.response ar) \<and> truthy (supplierEmail ar) \<and>
    truthy (ActivityResponseRequest.entraObjectId ar) \<and> truthy (sharePointItemId ar) \<and>
    toLowerCase (the (ActivityResponseRequest.response ar)) = ''no'' \<and>
    sites_get g ''egginthenest.sharepoint.com'' ''/sites/INTRANET'' w = (Inr siteId, wa) \<and>
    members_ref_delete g OFFICE365_E1_GROUP_ID (the (ActivityResponseRequest.entraObjectId ar)) wa = (Inl e, wb) \<and>
    statusCode e \<noteq> Some 404
    \<longrightarrow>
    handleActivityResponse g now (Inr ar) (w, tr) =
      (Inr \<lparr>status = 500,
              jsonBody = [(''success'', JBool False),
                          (''error'', JStr (or_else (message e) ''Internal server error'')),
                          (''details'', JStr (toString e))]\<rparr>,
       (wb, tr @ [Call (SitesGet ''egginthenest.sharepoint.com'' ''/sites/INTRANET''),
                 Call (GroupMembersRefDelete OFFICE365_E1_GROUP_ID (the (ActivityResponseRequest.entraObjectId ar))),
                 ErrorLog ''Error removing user from group:'',
                 ErrorLog ''Error processing activity response:'']))) \<and>
   (truthy (ActivityResponseRequest.response ar) \<and> truthy (supplierEmail ar) \<and>
    truthy (ActivityResponseRequest.entraObjectId ar) \<and> truthy (sharePointItemId ar) \<and>
    toLowerCase (the (ActivityResponseRequest.response ar)) = ''no'' \<and>
    sites_get g ''egginthenest.sharepoint.com'' ''/sites/INTRANET'' w = (Inr siteId, wa) \<and>
    members_ref_delete g OFFICE365_E1_GROUP_ID (the (ActivityResponseRequest.entraObjectId ar)) wa = (removed, wb) \<and>
    (removed = Inr () \<or> (\<exists>e'. removed = Inl e' \<and> statusCode e' = Some 404)) \<and>
    fields_patch g siteId SHAREPOINT_LIST_ID (the (sharePointItemId ar))
         [(''supplierdb_SendToEntra'', JBool False),
          (''supplierdb_ActivityCheckStatus'', JStr ''License Removed - User Declined''),
          (''supplierdb_LicenseRemovedDate'', JStr now)] wb = (Inl e, wc)
    \<longrightarrow>
    handleActivityResponse g now (Inr ar) (w, tr) =
      (Inr \<lparr>status = 500,
              jsonBody = [(''success'', JBool False),
                          (''error'', JStr (or_else (message e) ''Internal server error'')),
                          (''details'', JStr (toString e))]\<rparr>,
       (wc, tr @ [Call (SitesGet ''egginthenest.sharepoint.com'' ''/sites/INTRANET''),
                 Call (GroupMembersRefDelete OFFICE365_E1_GROUP_ID (the (ActivityResponseRequest.entraObjectId ar))),
                 Call (ListItemFieldsPatch siteId SHAREPOINT_LIST_ID (the (sharePointItemId ar))
         [(''supplierdb_SendToEntra'', JBool False),
          (''supplierdb_ActivityCheckStatus'', JStr ''License Removed - User Declined''),
          (''supplierdb_LicenseRemovedDate'', JStr now)]),
                 ErrorLog ''Error updating SharePoint item:'',
                 ErrorLog ''Error processing activity response:'']))) \<and>
   (\<exists>resp s'. handleActivityResponse g now request (w, tr) = (Inr resp, s') \<and>
     (status resp = 200 \<or> status resp = 400 \<or>
      (\<exists>e'. resp =
         \<lparr>status = 500,
          jsonBody = [(''success'', JBool False),
                      (''error'', JStr (or_else (message e') ''Internal server error'')),
                      (''details'', JStr (toString e'))]\<rparr>))) \<and>
   (\<exists>resp s'. manageLicense g now license_request (w, tr) = (Inr resp, s') \<and>
     (status resp = 200 \<or> status resp = 400 \<or> (\<exists>e'. resp = manageLicense_catch now e'))) \<and>
   (\<exists>resp s'. manageLicense_v1 g now license_body (w, tr) = (Inr resp, s') \<and>
     (status resp = 200 \<or> status resp = 400 \<or> (\<exists>e'. resp = manageLicense_v1_catch now e'))) \<and>
   (\<exists>resp s'. sendEmail g now email_body (w, tr) = (Inr resp, s') \<and>
     (status resp = 200 \<or> status resp = 400 \<or> (\<exists>e'. resp = sendEmail_catch now e'))) \<and>
   (\<exists>resp s'. resetFreelancerPassword g now array_sort rnd reset_request (w, tr) = (Inr resp, s') \<and>
     (status resp = 200 \<or> status resp = 400 \<or> status resp = 404 \<or>
      (\<exists>e'. resp = resetFreelancerPassword_catch now e'))) \<and>
   (statusCode e \<noteq> Some 429 \<longrightarrow>
      status (manageLicense_v1_catch now e) = spec_error_status (statusCode e)) \<and>
   map_of (jsonBody (manageLicense_v1_catch now e)) ''success'' = Some (JBool False) \<and>
   map_of (jsonBody (manageLicense_v1_catch now e)) ''error'' \<noteq> None \<and>
   map_of (jsonBody (manageLicense_v1_catch now e)) ''details'' =
     Some (JStr (or_else (message e) ''Unknown error occurred'')) \<and>
   map_of (jsonBody (manageLicense_v1_catch now e)) ''timestamp'' = Some (JStr now) \<and>
   status (resetFreelancerPassword_catch now e) =
     (if code e = Some ''Request_ResourceNotFound'' then 404
      else if statusCode e = Some 401 \<or> code e = Some ''InvalidAuthenticationToken'' then 401
      else if statusCode e = Some 403 then 403
      else if statusCode e = Some 429 then 429
      else 500) \<and>
   map_of (jsonBody (resetFreelancerPassword_catch now e)) ''success'' = Some (JBool False) \<and>
   map_of (jsonBody (resetFreelancerPassword_catch now e)) ''error'' \<noteq> None \<and>
   map_of (jsonBody (resetFreelancerPassword_catch now e)) ''details'' =
     Some (JStr (or_else (message e) ''Unknown error'')) \<and>
   map_of (jsonBody (resetFreelancerPassword_catch now e)) ''timestamp'' = Some (JStr now) \<and>
   ((truthy (ResetPasswordRequest.userPrincipalName rr) \<or> truthy (userId rr)) \<and>
    truthy (ResetPasswordRequest.firstName rr) \<and> truthy (ResetPasswordRequest.lastName rr) \<and>
    truthy (personalEmail rr) \<and>
    users_get g (if truthy (ResetPasswordRequest.userPrincipalName rr)
                 then the (ResetPasswordRequest.userPrincipalName rr) else the (userId rr)) w = (Inl e, w') \<and>
    statusCode e \<noteq> Some 404
    \<longrightarrow> fst (resetFreelancerPassword g now array_sort rnd (Inr rr) (w, tr)) =
          Inr (resetFreelancerPassword_catch now e)) \<and>
   ((truthy (ResetPasswordRequest.userPrincipalName rr) \<or> truthy (userId rr)) \<and>
    truthy (ResetPasswordRequest.firstName rr) \<and> truthy (ResetPasswordRequest.lastName rr) \<and>
    truthy (personalEmail rr) \<and>
    users_get g (if truthy (ResetPasswordRequest.userPrincipalName rr)
                 then the (ResetPasswordRequest.userPrincipalName rr) else the (userId rr)) w = (Inl e, w') \<and>
    statusCode e = Some 404
    \<longrightarrow> fst (resetFreelancerPassword g now array_sort rnd (Inr rr) (w, tr)) =
          Inr \<lparr>status = 404,
               jsonBody = [(''success'', JBool False),
                           (''error'', JStr ''User not found''),
                           (''details'', JStr (''No user found with identifier: '' @
                              (if truthy (ResetPasswordRequest.userPrincipalName rr)
                               then the (ResetPasswordRequest.userPrincipalName rr)
                               else the (userId rr)))),
                           (''timestamp'', JStr now)]\<rparr>)"
proof -
  have B: "truthy (userEmail lr) \<and> truthy (LicenseRequest.firstName lr) \<and> truthy (LicenseRequest.lastName lr) \<and>
    isActive lr \<noteq> Undefined \<and> \<not> truthy (LicenseRequest.entraObjectId lr) \<and> \<not> truthy (entraUPN lr) \<and>
    users_filter g (the (userEmail lr)) w = (Inl e, w')
    \<longrightarrow> fst (manageLicense g now (Inr lr) (w, tr)) = Inr (manageLicense_catch now e) \<and>
        fst (manageLicense_v1 g now (Some lr) (w, tr)) = Inr (manageLicense_v1_catch now e)"
    using license_search_fails [where r = lr and g = g and w = w and e = e and w' = w' and now = now and tr = tr]
    by simp
  have C: "recipients er \<noteq> None \<and> the (recipients er) \<noteq> [] \<and> length (the (recipients er)) \<le> 50 \<and>
    truthy (EmailRequest.subject er) \<and> truthy (body er) \<and> truthy (from_addr er) \<and>
    (\<forall>m save. sendMail_post g (the (from_addr er)) m save w = (Inl e, w'))
    \<longrightarrow> fst (sendEmail g now (Some er) (w, tr)) = Inr (sendEmail_catch now e)"
    using send_fails [where r = er and g = g and w = w and e = e and w' = w' and now = now and tr = tr]
    by simp
  note P1 = activity_parse_fails [where g = g and now = now and e = e and w = w and tr = tr]
  note P2 = activity_site_fails [where r = ar and g = g and now = now and e = e and w = w and w' = w' and tr = tr]
  note P3 = activity_yes_patch_fails
              [where r = ar and g = g and now = now and e = e and w = w and wa = wa and wb = wb
                 and siteId = siteId and tr = tr]
  note P4 = activity_no_removal_fails
              [where r = ar and g = g and now = now and e = e and w = w and wa = wa and wb = wb
                 and siteId = siteId and tr = tr]
  note P5 = activity_no_patch_fails
              [where r = ar and g = g and now = now and e = e and w = w and wa = wa and wb = wb
                 and wc = wc and siteId = siteId and removed = removed and tr = tr]
  note S = activity_response_shape [where g = g and now = now and request = request and w = w and tr = tr]
  note S1 = manageLicense_response_shape [where g = g and now = now and request = license_request and w = w and tr = tr]
  note S2 = manageLicense_v1_response_shape [where g = g and now = now and req_body = license_body and w = w and tr = tr]
  note S3 = sendEmail_response_shape [where g = g and now = now and req_body = email_body and w = w and tr = tr]
  note S4 = resetFreelancerPassword_response_shape
              [where g = g and now = now and array_sort = array_sort and rnd = rnd
                 and request = reset_request and w = w and tr = tr]
  have G: "(truthy (ResetPasswordRequest.userPrincipalName rr) \<or> truthy (userId rr)) \<and>
    truthy (ResetPasswordRequest.firstName rr) \<and> truthy (ResetPasswordRequest.lastName rr) \<and>
    truthy (personalEmail rr) \<and>
    users_get g (if truthy (ResetPasswordRequest.userPrincipalName rr)
                 then the (ResetPasswordRequest.userPrincipalName rr) else the (userId rr)) w = (Inl e, w') \<and>
    statusCode e = Some 404
    \<longrightarrow> fst (resetFreelancerPassword g now array_sort rnd (Inr rr) (w, tr)) =
          Inr \<lparr>status = 404,
               jsonBody = [(''success'', JBool False),
                           (''error'', JStr ''User not found''),
                           (''details'', JStr (''No user found with identifier: '' @
                              (if truthy (ResetPasswordRequest.userPrincipalName rr)
                               then the (ResetPasswordRequest.userPrincipalName rr)
                               else the (userId rr)))),
                           (''timestamp'', JStr now)]\<rparr>"
    using reset_lookup_not_found [where r = rr and g = g and w = w and e = e and w' = w' and now = now
      and array_sort = array_sort and rnd = rnd and tr = tr]
    by simp
  have E: "statusCode e \<noteq> Some 429 \<longrightarrow>
      status (manageLicense_v1_catch now e) = spec_error_status (statusCode e)"
    using catch_status(3) [where now = now and e = e] by simp
  have F: "(truthy (ResetPasswordRequest.userPrincipalName rr) \<or> truthy (userId rr)) \<and>
    truthy (ResetPasswordRequest.firstName rr) \<and> truthy (ResetPasswordRequest.lastName rr) \<and>
    truthy (personalEmail rr) \<and>
    users_get g (if truthy (ResetPasswordRequest.userPrincipalName rr)
                 then the (ResetPasswordRequest.userPrincipalName rr) else the (userId rr)) w = (Inl e, w') \<and>
    statusCode e \<noteq> Some 404
    \<longrightarrow> fst (resetFreelancerPassword g now array_sort rnd (Inr rr) (w, tr)) =
          Inr (resetFreelancerPassword_catch now e)"
    using reset_lookup_fails [where r = rr and g = g and w = w and e = e and w' = w' and now = now
      and array_sort = array_sort and rnd = rnd and tr = tr]
    by simp
  show ?thesis
    by (intro conjI B C P1 P2 P3 P4 P5 S S1 S2 S3 S4 E F G)
       (simp_all only: catch_status(1,2,4) catch_body [where now = now and e = e, THEN conjunct1]
          catch_body [where now = now and e = e, THEN conjunct2, THEN conjunct1]
          catch_body [where now = now and e = e, THEN conjunct2, THEN conjunct2, THEN conjunct1]
          catch_body [where now = now and e = e, THEN conjunct2, THEN conjunct2, THEN conjunct2]
          not_False_eq_True)
qed

theorem error_status_mapping_witness:
  "statusCode request_denied = Some 403 \<and>
   fst (manageLicense (failing_graph request_denied) a_moment (Inr license_ab) ((), [])) =
     Inr (manageLicense_catch a_moment request_denied) \<and>
   status (manageLicense_catch a_moment request_denied) = 403 \<and>
   fst (sendEmail (failing_graph request_denied) a_moment (Some newsletter) ((), [])) =
     Inr (sendEmail_catch a_moment request_denied) \<and>
   status (sendEmail_catch a_moment request_denied) = 403 \<and>
   fst (manageLicense_v1 (failing_graph request_denied) a_moment (Some license_ab) ((), [])) =
     Inr (manageLicense_v1_catch a_moment request_denied) \<and>
   status (manageLicense_v1_catch a_moment request_denied) = 403 \<and>
   fst (resetFreelancerPassword (failing_graph request_denied) a_moment insertion_sort (\<lambda>n. n)
          (Inr reset_alice) ((), [])) =
     Inr (resetFreelancerPassword_catch a_moment request_denied) \<and>
   status (resetFreelancerPassword_catch a_moment request_denied) = 403 \<and>
   fst (resetFreelancerPassword memory_graph a_moment insertion_sort (\<lambda>n. n)
          (Inr reset_alice) (empty_directory, [])) =
     Inr \<lparr>status = 404,
          jsonBody = [(''success'', JBool False),
                      (''error'', JStr ''User not found''),
                      (''details'', JStr ''No user found with identifier: alice.talent@egg-events.com''),
                      (''timestamp'', JStr a_moment)]\<rparr> \<and>
   fst (handleActivityResponse (failing_graph request_denied) a_moment (Inr decline) ((), [])) =
     Inr \<lparr>status = 500,
          jsonBody = [(''success'', JBool False),
                      (''error'', JStr (or_else (message request_denied) ''Internal server error'')),
                      (''details'', JStr (toString request_denied))]\<rparr> \<and>
   fst (handleActivityResponse (partial_graph (Inr ()) (Inl request_denied)) a_moment (Inr confirm) ((), [])) =
     Inr \<lparr>status = 500,
          jsonBody = [(''success'', JBool False),
                      (''error'', JStr (or_else (message request_denied) ''Internal server error'')),
                      (''details'', JStr (toString request_denied))]\<rparr> \<and>
   fst (handleActivityResponse (partial_graph (Inr ()) (Inl request_denied)) a_moment (Inr decline) ((), [])) =
     Inr \<lparr>status = 500,
          jsonBody = [(''success'', JBool False),
                      (''error'', JStr (or_else (message request_denied) ''Internal server error'')),
                      (''details'', JStr (toString request_denied))]\<rparr> \<and>
   fst (handleActivityResponse (partial_graph (Inl request_denied) (Inr ())) a_moment (Inr decline) ((), [])) =
     Inr \<lparr>status = 500,
          jsonBody = [(''success'', JBool False),
                      (''error'', JStr (or_else (message request_denied) ''Internal server error'')),
                      (''details'', JStr (toString request_denied))]\<rparr>"
proof -
  have sc: "statusCode request_denied = Some 403" "code request_denied = Some ''Authorization_RequestDenied''"
    "statusCode request_denied \<noteq> Some 404"
    by (simp_all add: request_denied_def graph_error_def)
  have l: "truthy (userEmail license_ab)" "truthy (LicenseRequest.firstName license_ab)"
    "truthy (LicenseRequest.lastName license_ab)" "isActive license_ab \<noteq> Undefined"
    "\<not> truthy (LicenseRequest.entraObjectId license_ab)" "\<not> truthy (entraUPN license_ab)"
    by (simp_all add: license_ab_def truthy_def)
  have m: "recipients newsletter \<noteq> None" "the (recipients newsletter) \<noteq> []"
    "length (the (recipients newsletter)) \<le> 50" "truthy (EmailRequest.subject newsletter)"
    "truthy (body newsletter)" "truthy (from_addr newsletter)"
    by (simp_all add: newsletter_def truthy_def)
  have a: "truthy (ActivityResponseRequest.response decline)" "truthy (supplierEmail decline)"
    "truthy (ActivityResponseRequest.entraObjectId decline)" "truthy (sharePointItemId decline)"
    "toLowerCase (the (ActivityResponseRequest.response decline)) = ''no''"
    by (simp_all add: decline_def truthy_def toLowerCase_def toLowerCase_char_def)
  have y: "truthy (ActivityResponseRequest.response confirm)" "truthy (supplierEmail confirm)"
    "truthy (ActivityResponseRequest.entraObjectId confirm)" "truthy (sharePointItemId confirm)"
    "toLowerCase (the (ActivityResponseRequest.response confirm)) = ''yes''"
    by (simp_all add: confirm_def truthy_def toLowerCase_def toLowerCase_char_def)
  have r: "truthy (ResetPasswordRequest.userPrincipalName reset_alice) \<or> truthy (userId reset_alice)"
    "truthy (ResetPasswordRequest.firstName reset_alice)" "truthy (ResetPasswordRequest.lastName reset_alice)"
    "truthy (personalEmail reset_alice)"
    by (simp_all add: reset_alice_def truthy_def)
  have f: "users_filter (failing_graph request_denied) x () = (Inl request_denied, ())"
    "users_get (failing_graph request_denied) x () = (Inl request_denied, ())"
    "sites_get (failing_graph request_denied) x z () = (Inl request_denied, ())"
    "\<forall>m save. sendMail_post (failing_graph request_denied) x m save () = (Inl request_denied, ())"
    for x z
    by (simp_all add: failing_graph_def)
  have p: "sites_get (partial_graph removal patching) x z () = (Inr ''site-1'', ())"
    "members_ref_delete (partial_graph removal patching) x z () = (removal, ())"
    "fields_patch (partial_graph removal patching) x z i fs () = (patching, ())"
    for removal patching x z i fs
    by (simp_all add: partial_graph_def)
  have nf: "users_get memory_graph
              (if truthy (ResetPasswordRequest.userPrincipalName reset_alice)
               then the (ResetPasswordRequest.userPrincipalName reset_alice) else the (userId reset_alice))
              empty_directory =
            (Inl (graph_error 404 ''Request_ResourceNotFound'' ''Resource does not exist''), empty_directory)"
    "statusCode (graph_error 404 ''Request_ResourceNotFound'' ''Resource does not exist'') = Some 404"
    "(if truthy (ResetPasswordRequest.userPrincipalName reset_alice)
      then the (ResetPasswordRequest.userPrincipalName reset_alice) else the (userId reset_alice))
       = ''alice.talent@egg-events.com''"
    by (simp_all add: memory_graph_def empty_directory_def graph_error_def reset_alice_def truthy_def)
  from error_status_mapping
         [where g = "failing_graph request_denied" and e = request_denied and now = a_moment
            and lr = license_ab and er = newsletter and ar = decline and rr = reset_alice
            and w = "()" and w' = "()" and tr = "[]" and array_sort = insertion_sort
            and rnd = "\<lambda>n. n"]
       sc l m a r f
  have first: "fst (manageLicense (failing_graph request_denied) a_moment (Inr license_ab) ((), [])) =
       Inr (manageLicense_catch a_moment request_denied) \<and>
     status (manageLicense_catch a_moment request_denied) = 403 \<and>
     fst (sendEmail (failing_graph request_denied) a_moment (Some newsletter) ((), [])) =
       Inr (sendEmail_catch a_moment request_denied) \<and>
     status (sendEmail_catch a_moment request_denied) = 403 \<and>
     fst (manageLicense_v1 (failing_graph request_denied) a_moment (Some license_ab) ((), [])) =
       Inr (manageLicense_v1_catch a_moment request_denied) \<and>
     status (manageLicense_v1_catch a_moment request_denied) = 403 \<and>
     fst (resetFreelancerPassword (failing_graph request_denied) a_moment insertion_sort (\<lambda>n. n)
            (Inr reset_alice) ((), [])) =
       Inr (resetFreelancerPassword_catch a_moment request_denied) \<and>
     status (resetFreelancerPassword_catch a_moment request_denied) = 403 \<and>
     fst (handleActivityResponse (failing_graph request_denied) a_moment (Inr decline) ((), [])) =
       Inr \<lparr>status = 500,
            jsonBody = [(''success'', JBool False),
                        (''error'', JStr (or_else (message request_denied) ''Internal server error'')),
                        (''details'', JStr (toString request_denied))]\<rparr>"
    by (simp add: spec_error_status_def)
  from error_status_mapping
         [where g = memory_graph and now = a_moment and rr = reset_alice and w = empty_directory
            and w' = empty_directory and tr = "[]" and array_sort = insertion_sort and rnd = "\<lambda>n. n"
            and e = "graph_error 404 ''Request_ResourceNotFound'' ''Resource does not exist''"]
       r nf
  have missing: "fst (resetFreelancerPassword memory_graph a_moment insertion_sort (\<lambda>n. n)
          (Inr reset_alice) (empty_directory, [])) =
     Inr \<lparr>status = 404,
          jsonBody = [(''success'', JBool False),
                      (''error'', JStr ''User not found''),
                      (''details'', JStr ''No user found with identifier: alice.talent@egg-events.com''),
                      (''timestamp'', JStr a_moment)]\<rparr>"
    by simp
  from error_status_mapping
         [where g = "partial_graph (Inr ()) (Inl request_denied)" and e = request_denied
            and now = a_moment and ar = confirm and w = "()" and wa = "()" and wb = "()"
            and siteId = "''site-1''" and tr = "[]"]
       y p
  have yes_patch: "fst (handleActivityResponse (partial_graph (Inr ()) (Inl request_denied)) a_moment
                          (Inr confirm) ((), [])) =
     Inr \<lparr>status = 500,
          jsonBody = [(''success'', JBool False),
                      (''error'', JStr (or_else (message request_denied) ''Internal server error'')),
                      (''details'', JStr (toString request_denied))]\<rparr>"
    by simp
  from error_status_mapping
         [where g = "partial_graph (Inr ()) (Inl request_denied)" and e = request_denied
            and now = a_moment and ar = decline and w = "()" and wa = "()" and wb = "()" and wc = "()"
            and siteId = "''site-1''" and tr = "[]" and removed = "Inr ()"]
       a p
  have no_patch: "fst (handleActivityResponse (partial_graph (Inr ()) (Inl request_denied)) a_moment
                         (Inr decline) ((), [])) =
     Inr \<lparr>status = 500,
          jsonBody = [(''success'', JBool False),
                      (''error'', JStr (or_else (message request_denied) ''Internal server error'')),
                      (''details'', JStr (toString request_denied))]\<rparr>"
    by simp
  from error_status_mapping
         [where g = "partial_graph (Inl request_denied) (Inr ())" and e = request_denied
            and now = a_moment and ar = decline and w = "()" and wa = "()" and wb = "()"
            and siteId = "''site-1''" and tr = "[]"]
       a p sc
  have no_removal: "fst (handleActivityResponse (partial_graph (Inl request_denied) (Inr ())) a_moment
                           (Inr decline) ((), [])) =
     Inr \<lparr>status = 500,
          jsonBody = [(''success'', JBool False),
                      (''error'', JStr (or_else (message request_denied) ''Internal server error'')),
                      (''details'', JStr (toString request_denied))]\<rparr>"
    by simp
  from sc(1) first missing yes_patch no_patch no_removal show ?thesis by simp
qed

end
